theory Spec2Isabelle
  imports Main "HOL-Library.Multiset" "HOL-Library.Sublist"
begin

section \<open>Go values used by the package\<close>

text \<open>
  A Go map variable is either \<open>nil\<close> or a reference to a table. Reading a key of a
  \<open>nil\<close> map reports that the key is absent; assigning to an entry of a \<open>nil\<close> map
  panics. The only panic that the modelled code can raise itself is that one.
\<close>

datatype panic = NilMapAssign

definition mapHas :: "('k \<rightharpoonup> 'v) option \<Rightarrow> 'k \<Rightarrow> bool" where
  "mapHas m k = (case m of None \<Rightarrow> False | Some t \<Rightarrow> t k \<noteq> None)"

definition mapAssign :: "('k \<rightharpoonup> 'v) option \<Rightarrow> 'k \<Rightarrow> 'v \<Rightarrow> panic + ('k \<rightharpoonup> 'v) option" where
  "mapAssign m k v = (case m of None \<Rightarrow> Inl NilMapAssign | Some t \<Rightarrow> Inr (Some (t(k \<mapsto> v))))"

text \<open>
  The values of a \<open>template.FuncMap\<close> are of type \<open>interface{}\<close>. The package stores its
  own functions there (named by their Go identifier) and whatever value a caller hands to
  \<open>AddCustomFn\<close>.
\<close>

datatype 'f fnval = Pkg string | Custom 'f

text \<open>A Go \<open>error\<close> is \<open>nil\<close> or carries its message.\<close>

type_synonym error = "string option"

section \<open>The help index constants\<close>

text \<open>The \<open>iota\<close> block of \<open>tfortools.go\<close>: the help texts are presented in this order.\<close>

definition helpFilterIndex :: int where "helpFilterIndex = 0"
definition helpFilterContainsIndex :: int where "helpFilterContainsIndex = 1"
definition helpFilterHasPrefixIndex :: int where "helpFilterHasPrefixIndex = 2"
definition helpFilterHasSuffixIndex :: int where "helpFilterHasSuffixIndex = 3"
definition helpFilterFoldedIndex :: int where "helpFilterFoldedIndex = 4"
definition helpFilterRegexpIndex :: int where "helpFilterRegexpIndex = 5"
definition helpToJSONIndex :: int where "helpToJSONIndex = 6"
definition helpToCSVIndex :: int where "helpToCSVIndex = 7"
definition helpSelectIndex :: int where "helpSelectIndex = 8"
definition helpSelectAltIndex :: int where "helpSelectAltIndex = 9"
definition helpTableIndex :: int where "helpTableIndex = 10"
definition helpTableAltIndex :: int where "helpTableAltIndex = 11"
definition helpTableXIndex :: int where "helpTableXIndex = 12"
definition helpTableXAltIndex :: int where "helpTableXAltIndex = 13"
definition helpHTableIndex :: int where "helpHTableIndex = 14"
definition helpHTableAltIndex :: int where "helpHTableAltIndex = 15"
definition helpHTableXIndex :: int where "helpHTableXIndex = 16"
definition helpHTableXAltIndex :: int where "helpHTableXAltIndex = 17"
definition helpColsIndex :: int where "helpColsIndex = 18"
definition helpSortIndex :: int where "helpSortIndex = 19"
definition helpRowsIndex :: int where "helpRowsIndex = 20"
definition helpHeadIndex :: int where "helpHeadIndex = 21"
definition helpTailIndex :: int where "helpTailIndex = 22"
definition helpDescribeIndex :: int where "helpDescribeIndex = 23"
definition helpPromoteIndex :: int where "helpPromoteIndex = 24"
definition helpSliceofIndex :: int where "helpSliceofIndex = 25"
definition helpToTableIndex :: int where "helpToTableIndex = 26"
definition helpIndexCount :: int where "helpIndexCount = 27"

section \<open>The help texts\<close>

definition helpFilter :: string where
  \<open>helpFilter = concat
    [''- 'filter' operates on an slice or array of structures.  It allows the caller\<newline>'',
     ''  to filter the input array based on the value of a single field.\<newline>'',
     ''  The function returns a slice containing only the objects that satisfy the\<newline>'',
     ''  filter, e.g.\<newline>'',
     ''\<newline>'',
     ''  {{len (filter . "Protected" "true")}}\<newline>'',
     ''\<newline>'',
     ''  outputs the number of elements whose "Protected" field is equal to "true".\<newline>'']\<close>

definition helpFilterContains :: string where
  \<open>helpFilterContains = concat
    [''- 'filterContains' operates along the same lines as filter, but returns\<newline>'',
     ''  substring matches\<newline>'',
     ''\<newline>'',
     ''  {{len(filterContains . "Name" "Cloud"}})\<newline>'',
     ''\<newline>'',
     ''  outputs the number of elements whose "Name" field contains the word "Cloud".\<newline>'']\<close>

definition helpFilterHasPrefix :: string where
  \<open>helpFilterHasPrefix = concat
    [''- 'filterHasPrefix' is similar to filter, but returns prefix matches.\<newline>'']\<close>

definition helpFilterHasSuffix :: string where
  \<open>helpFilterHasSuffix = concat
    [''- 'filterHasSuffix' is similar to filter, but returns suffix matches.\<newline>'']\<close>

definition helpFilterFolded :: string where
  \<open>helpFilterFolded = concat
    [''- 'filterFolded' is similar to filter, but returns matches based on equality\<newline>'',
     ''  under Unicode case-folding.\<newline>'']\<close>

definition helpFilterRegexp :: string where
  \<open>helpFilterRegexp = concat
    [''- 'filterRegexp' is similar to filter, but returns matches based on regular\<newline>'',
     ''  expression matching\<newline>'',
     ''\<newline>'',
     ''  {{len (filterRegexp . "Name" "^Docker[ a-zA-z]*latest$"}})\<newline>'',
     ''\<newline>'',
     ''  outputs the number of elements whose "Name" field have 'Docker' as a prefix\<newline>'',
     ''  and 'latest' as a suffix in their name.\<newline>'']\<close>

definition helpToJSON :: string where
  \<open>helpToJSON = concat
    [''- 'tojson' outputs the target object in json format, e.g., {{tojson .}}\<newline>'']\<close>

definition helpToCSV :: string where
  \<open>helpToCSV = concat
    [''- 'tocsv' converts a [][]string or a slice of structs to csv format, e.g.,\<newline>'',
     ''  {{tocsv .}}\<newline>'',
     ''\<newline>'',
     ''  'tocsv' takes an optional boolean parameter, which if true, omits the\<newline>'',
     ''  first row containing the structure field name derived column headings.\<newline>'',
     ''  This boolean parameter defaults to false and is ignored when operating\<newline>'',
     ''  on a [][]string.\<newline>'']\<close>

definition helpSelect :: string where
  \<open>helpSelect = concat
    [''- 'select' operates on a slice of structs.  It outputs the value of a specified\<newline>'',
     ''  field for each struct on a new line , e.g.,\<newline>'',
     ''\<newline>'',
     ''  {{select . "Name"}}\<newline>'',
     ''\<newline>'',
     ''  prints the 'Name' field of each structure in the slice.\<newline>'']\<close>

definition helpSelectAlt :: string where
  \<open>helpSelectAlt = concat
    [''- 'selectalt' Similar to select except that objects are formatted using %#v\<newline>'']\<close>

definition helpTable :: string where
  \<open>helpTable = concat
    [''- 'table' outputs a table given an array or a slice of structs.  The table\<newline>'',
     ''  headings are taken from the names of the structs fields.  Hidden fields and\<newline>'',
     ''  fields of type channel are ignored.  The tabwidth and minimum column width\<newline>'',
     ''  are hardcoded to 8.  An example of table's usage is\<newline>'',
     ''\<newline>'',
     ''  {{table .}}\<newline>'']\<close>

definition helpTableAlt :: string where
  \<open>helpTableAlt = concat
    [''- 'tablealt' Similar to table except that objects are formatted using %#v\<newline>'']\<close>

definition helpTableX :: string where
  \<open>helpTableX = concat
    [''- 'tablex' is similar to table but it allows the caller more control over the\<newline>'',
     ''  table's appearance.  Users can control the names of the headings and also set\<newline>'',
     ''  the tab and column width.  'tablex' takes 4 or more parameters.  The first\<newline>'',
     ''  parameter is the slice of structs to output, the second is the minimum column\<newline>'',
     ''  width, the third the tab width  and the fourth is the padding.  The fifth and\<newline>'',
     ''  subsequent parameters are the names of the column headings.  The column\<newline>'',
     ''  headings are optional and the field names of the structure will be used if\<newline>'',
     ''  they are absent.  Example of its usage are:\<newline>'',
     ''\<newline>'',
     ''  {{tablex . 12 8 1 "Column 1" "Column 2"}}\<newline>'',
     ''  {{tablex . 8 8 1}}\<newline>'']\<close>

definition helpTableXAlt :: string where
  \<open>helpTableXAlt = concat
    [''- 'tablexalt' Similar to tablex except that objects are formatted using %#v\<newline>'']\<close>

definition helpHTable :: string where
  \<open>helpHTable = concat
    [''- 'htable' outputs each element of an array or a slice of structs\<newline>'',
     ''  in its own two column table.  The values for the first column are taken from\<newline>'',
     ''  the names of the structs' fields.  The second column contains the field values.\<newline>'',
     ''  Hidden fields and fields of type channel are ignored. The tabwidth and minimum\<newline>'',
     ''  column width are hardcoded to 8.  An example of htable's usage is\<newline>'',
     ''\<newline>'',
     ''  {{htable .}}\<newline>'']\<close>

definition helpHTableAlt :: string where
  \<open>helpHTableAlt = concat
    [''- 'htablealt' Similar to htable except that objects are formatted using %#v\<newline>'']\<close>

definition helpHTableX :: string where
  \<open>helpHTableX = concat
    [''- 'htablex' is similar to htable but it allows the caller more control over the\<newline>'',
     ''  tables' appearances.  Users can control the names displayed in the first column\<newline>'',
     ''  and also set the tab and column width.  'htablex' takes 4 or more parameters.\<newline>'',
     ''  The first parameter is the slice of structs to output, the second is the minimum\<newline>'',
     ''  column width, the third the tab width  and the fourth is the padding.  The\<newline>'',
     ''  fifth and subsequent parameters are the values displayed in the first column\<newline>'',
     ''  of each table.  These first column values are optional and the field names of\<newline>'',
     ''  the structures will be used if they are absent.  Example of its usage are:\<newline>'',
     ''\<newline>'',
     ''  {{htablex . 12 8 1 "Field 1" "Field 2"}}\<newline>'',
     ''  {{htablex . 8 8 1}}\<newline>'']\<close>

definition helpHTableXAlt :: string where
  \<open>helpHTableXAlt = concat
    [''- 'htablexalt' Similar to htablex except that objects are formatted using %#v\<newline>'']\<close>

definition helpCols :: string where
  \<open>helpCols = concat
    [''- 'cols' can be used to extract certain columns from a table consisting of a\<newline>'',
     ''  slice or array of structs.  It returns a new slice of structs which contain\<newline>'',
     ''  only the fields requested by the caller.   For example, given a slice of structs\<newline>'',
     ''\<newline>'',
     ''  {{cols . "Name" "Address"}}\<newline>'',
     ''\<newline>'',
     ''  returns a new slice of structs, each element of which is a structure with only\<newline>'',
     ''  two fields, 'Name' and 'Address'.\<newline>'']\<close>

definition helpSort :: string where
  \<open>helpSort = concat
    [''- 'sort' sorts a slice or an array of structs.  It takes three parameters.  The\<newline>'',
     ''  first is the slice; the second is the name of the structure field by which to\<newline>'',
     ''  'sort'; the third provides the direction of the 'sort'.  The third parameter is\<newline>'',
     ''  optional.  If provided, it must be either "asc" or "dsc".  If omitted the\<newline>'',
     ''  elements of the slice are sorted in ascending order.  The type of the second\<newline>'',
     ''  field can be a number or a string.  When presented with another type, 'sort'\<newline>'',
     ''  will try to sort the elements by the string representation of the chosen field.\<newline>'',
     ''  The following example sorts a slice in ascending order by the Name field.\<newline>'',
     ''  \<newline>'',
     ''  {{sort . "Name"}}\<newline>'']\<close>

definition helpRows :: string where
  \<open>helpRows = concat
    [''- 'rows' is used to extract a set of given rows from a slice or an array.  It\<newline>'',
     ''  takes at least two parameters. The first is the slice on which to operate.\<newline>'',
     ''  All subsequent parameters must be integers that correspond to a row in the\<newline>'',
     ''  input slice.  Indicies that refer to non-existent rows are ignored.  For\<newline>'',
     ''  example:\<newline>'',
     ''\<newline>'',
     ''  {{rows . 1 2}}\<newline>'',
     ''\<newline>'',
     ''  extracts the 2nd and 3rd rows from the slice represented by '.'.\<newline>'']\<close>

definition helpHead :: string where
  \<open>helpHead = concat
    [''- 'head' operates on a slice or an array, returning the first n elements of\<newline>'',
     ''  that array as a new slice.  If n is not provided, a slice containing the\<newline>'',
     ''  first element of the input slice is returned.  For example,\<newline>'',
     ''\<newline>'',
     ''  {{ head .}}\<newline>'',
     ''\<newline>'',
     ''  returns a single element slice containing the first element of '.' and\<newline>'',
     ''\<newline>'',
     ''  {{ head . 3}}\<newline>'',
     ''\<newline>'',
     ''  returns a slice containing the first three elements of '.'.  If '.' contains\<newline>'',
     ''  only 2 elements the slice returned by {{ head . 3}} would be identical to the\<newline>'',
     ''  input slice.\<newline>'']\<close>

definition helpTail :: string where
  \<open>helpTail = concat
    [''- 'tail' is similar to head except that it returns a slice containing the last\<newline>'',
     ''  n elements of the input slice.  For example,\<newline>'',
     ''\<newline>'',
     ''  {{tail . 2}}\<newline>'',
     ''\<newline>'',
     ''  returns a new slice containing the last two elements of '.'.\<newline>'']\<close>

definition helpDescribe :: string where
  \<open>helpDescribe = concat
    [''- 'describe' takes a single argument and outputs a description of the\<newline>'',
     ''  type of that argument.  It can be useful if the type of the object\<newline>'',
     ''  operated on by a template program is not described in the help of the\<newline>'',
     ''  tool that executes the template.\<newline>'',
     ''\<newline>'',
     ''  {{describe . }}\<newline>'',
     ''\<newline>'',
     '' outputs a description of the type of '.'.\<newline>'']\<close>

definition helpPromote :: string where
  \<open>helpPromote = concat
    [''- 'promote' takes two arguments, a slice or an array of structures and a field\<newline>'',
     ''  path.  It returns a new slice containing only the objects identified by the\<newline>'',
     ''  field path.  The field path is a period separated list of structure field\<newline>'',
     ''  names.  Promote can be useful to extract a set of objects deep within a data\<newline>'',
     ''  structure into a new slice that can be passed to other functions, e.g., table.\<newline>'',
     ''  For example, given the following type\<newline>'',
     '' \<newline>'',
     ''   []struct {\<newline>'',
     ''      uninteresting int\<newline>'',
     ''      user struct {\<newline>'',
     ''          credentials struct {\<newline>'',
     ''              name string\<newline>'',
     ''              password string\<newline>'',
     ''          }\<newline>'',
     ''      }\<newline>'',
     ''  }\<newline>'',
     ''\<newline>'',
     ''  {{promote . "user.credentials"}}\<newline>'',
     ''\<newline>'',
     ''  returns a slice of credentials one for each element of the original top level\<newline>'',
     ''  slice.\<newline>'']\<close>

definition helpSliceof :: string where
  \<open>helpSliceof = concat
    [''- 'sliceof' takes one argument and returns a new slice containing only that\<newline>'',
     ''argument.\<newline>'']\<close>

definition helpToTable :: string where
  \<open>helpToTable = concat
    [''- 'totable' converts a slice of a slice of strings into a slice of\<newline>'',
     ''  structures.  The field names of the structures are taken from the values of\<newline>'',
     ''  the first row in the slice.  The types of the fields are derived from the\<newline>'',
     ''  values specified in the second row.  The input slice should be of length 2\<newline>'',
     ''  or greater.  Data in columns in the second and subsequent rows should be\<newline>'',
     ''  homogenous.  The elements of the first row should be unique and ideally be\<newline>'',
     ''  valid exported variable names.  'totable' will try to sanitize the field\<newline>'',
     ''  names, if they are not valid go identifiers.\<newline>'']\<close>

section \<open>Config\<close>

text \<open>
  The field \<open>help\<close> of \<open>funcHelpInfo\<close> is written \<open>help'\<close>.
\<close>

record funcHelpInfo =
  name :: string
  help' :: string
  index :: int

record 'f Config =
  funcMap :: "(string \<rightharpoonup> 'f fnval) option"
  funcHelp :: "funcHelpInfo list"

text \<open>
  \<open>strings.TrimRightFunc(s, unicode.IsSpace)\<close> decodes the last rune of \<open>s\<close>, removes it
  when \<open>unicode.IsSpace\<close> holds of it, and repeats. \<open>unicode.IsSpace\<close> holds of the runes
  U+0009 to U+000D, U+0020, U+0085, U+00A0, U+1680, U+2000 to U+200A, U+2028, U+2029, U+202F,
  U+205F and U+3000. A Go string is a sequence of bytes, and the last rune of a string is one
  of these exactly when the string ends with the rune's UTF-8 encoding; \<open>whiteSpace\<close> lists
  the encodings.
\<close>

definition whiteSpace :: "string list" where
  "whiteSpace =
    [[CHR 0x09], [CHR 0x0A], [CHR 0x0B], [CHR 0x0C], [CHR 0x0D], [CHR 0x20],
     [CHR 0xC2, CHR 0x85], [CHR 0xC2, CHR 0xA0],
     [CHR 0xE1, CHR 0x9A, CHR 0x80],
     [CHR 0xE2, CHR 0x80, CHR 0x80], [CHR 0xE2, CHR 0x80, CHR 0x81],
     [CHR 0xE2, CHR 0x80, CHR 0x82], [CHR 0xE2, CHR 0x80, CHR 0x83],
     [CHR 0xE2, CHR 0x80, CHR 0x84], [CHR 0xE2, CHR 0x80, CHR 0x85],
     [CHR 0xE2, CHR 0x80, CHR 0x86], [CHR 0xE2, CHR 0x80, CHR 0x87],
     [CHR 0xE2, CHR 0x80, CHR 0x88], [CHR 0xE2, CHR 0x80, CHR 0x89],
     [CHR 0xE2, CHR 0x80, CHR 0x8A],
     [CHR 0xE2, CHR 0x80, CHR 0xA8], [CHR 0xE2, CHR 0x80, CHR 0xA9],
     [CHR 0xE2, CHR 0x80, CHR 0xAF],
     [CHR 0xE2, CHR 0x81, CHR 0x9F],
     [CHR 0xE3, CHR 0x80, CHR 0x80]]"

definition hasSuffix :: "string \<Rightarrow> string \<Rightarrow> bool" where
  "hasSuffix s w = (length w \<le> length s \<and> drop (length s - length w) s = w)"

function TrimRightSpace :: "string \<Rightarrow> string" where
  "TrimRightSpace s =
     (case find (hasSuffix s) whiteSpace of
        None \<Rightarrow> s
      | Some w \<Rightarrow> TrimRightSpace (take (length s - length w) s))"
  by pat_completeness auto
termination
proof (relation "measure length")
  show "wf (measure length)" by simp
next
  fix s w
  assume "find (hasSuffix s) whiteSpace = Some w"
  then have "hasSuffix s w" and "w \<in> set whiteSpace"
    by (auto simp: find_Some_iff)
  then have "length w \<le> length s" and "0 < length w"
    by (auto simp: hasSuffix_def whiteSpace_def)
  then have "length s - length w < length s"
    by arith
  then show "(take (length s - length w) s, s) \<in> measure length"
    by simp
qed

declare TrimRightSpace.simps [simp del]

text \<open>
  The functions below take the Config that their \<open>*Config\<close> argument points to and return
  the Config as the call leaves it; \<open>AddCustomFn\<close> returns its \<open>error\<close> with it. (On a
  \<open>nil\<close> pointer each of them dereferences \<open>nil\<close>; only the functions that document a
  \<open>nil\<close> Config, further down, take a \<open>Config option\<close>.)
\<close>

definition AddCustomFn ::
  "'f Config \<Rightarrow> 'f \<Rightarrow> string \<Rightarrow> string \<Rightarrow> panic + (error \<times> 'f Config)" where
  "AddCustomFn c fn nm helpText =
     (if mapHas (funcMap c) nm then Inr (Some (nm @ '' already exists''), c)
      else case mapAssign (funcMap c) nm (Custom fn) of
             Inl p \<Rightarrow> Inl p
           | Inr m \<Rightarrow>
               (let c1 = c\<lparr>funcMap := m\<rparr>;
                    helpText1 = TrimRightSpace helpText
                in if helpText1 \<noteq> ''''
                   then Inr (None, c1\<lparr>funcHelp := funcHelp c1 @
                          [\<lparr>name = nm, help' = helpText1 @ ''\<newline>'', index = helpIndexCount\<rparr>]\<rparr>)
                   else Inr (None, c1)))"

section \<open>The package's tables\<close>

text \<open>
  Modelled from the spec: the package variables \<open>funcMap\<close> and \<open>funcHelpSlice\<close> are declared
  outside \<open>tfortools.go\<close>. \<open>OptAllFns\<close> "enables all template extension functions provided
  by this package" by copying them, and for a \<open>nil\<close> Config "documentation is generated for
  all functions provided by tfortools": the tables hold the entry that each \<open>Opt\<close> function
  below registers, \<open>funcHelpSlice\<close> in the order of the help index constants. The package
  variable \<open>funcMap\<close> is written \<open>pkgFuncMap\<close>.
\<close>

definition funcHelpSlice :: "funcHelpInfo list" where
  "funcHelpSlice =
    [\<lparr>name = ''filter'', help' = helpFilter, index = helpFilterIndex\<rparr>,
     \<lparr>name = ''filterContains'', help' = helpFilterContains, index = helpFilterContainsIndex\<rparr>,
     \<lparr>name = ''filterHasPrefix'', help' = helpFilterHasPrefix, index = helpFilterHasPrefixIndex\<rparr>,
     \<lparr>name = ''filterHasSuffix'', help' = helpFilterHasSuffix, index = helpFilterHasSuffixIndex\<rparr>,
     \<lparr>name = ''filterFolded'', help' = helpFilterFolded, index = helpFilterFoldedIndex\<rparr>,
     \<lparr>name = ''filterRegexp'', help' = helpFilterRegexp, index = helpFilterRegexpIndex\<rparr>,
     \<lparr>name = ''tojson'', help' = helpToJSON, index = helpToJSONIndex\<rparr>,
     \<lparr>name = ''tocsv'', help' = helpToCSV, index = helpToCSVIndex\<rparr>,
     \<lparr>name = ''select'', help' = helpSelect, index = helpSelectIndex\<rparr>,
     \<lparr>name = ''selectalt'', help' = helpSelectAlt, index = helpSelectAltIndex\<rparr>,
     \<lparr>name = ''table'', help' = helpTable, index = helpTableIndex\<rparr>,
     \<lparr>name = ''tablealt'', help' = helpTableAlt, index = helpTableAltIndex\<rparr>,
     \<lparr>name = ''tablex'', help' = helpTableX, index = helpTableXIndex\<rparr>,
     \<lparr>name = ''tablexalt'', help' = helpTableXAlt, index = helpTableXAltIndex\<rparr>,
     \<lparr>name = ''htable'', help' = helpHTable, index = helpHTableIndex\<rparr>,
     \<lparr>name = ''htablealt'', help' = helpHTableAlt, index = helpHTableAltIndex\<rparr>,
     \<lparr>name = ''htablex'', help' = helpHTableX, index = helpHTableXIndex\<rparr>,
     \<lparr>name = ''htablexalt'', help' = helpHTableXAlt, index = helpHTableXAltIndex\<rparr>,
     \<lparr>name = ''cols'', help' = helpCols, index = helpColsIndex\<rparr>,
     \<lparr>name = ''sort'', help' = helpSort, index = helpSortIndex\<rparr>,
     \<lparr>name = ''rows'', help' = helpRows, index = helpRowsIndex\<rparr>,
     \<lparr>name = ''head'', help' = helpHead, index = helpHeadIndex\<rparr>,
     \<lparr>name = ''tail'', help' = helpTail, index = helpTailIndex\<rparr>,
     \<lparr>name = ''describe'', help' = helpDescribe, index = helpDescribeIndex\<rparr>,
     \<lparr>name = ''promote'', help' = helpPromote, index = helpPromoteIndex\<rparr>,
     \<lparr>name = ''sliceof'', help' = helpSliceof, index = helpSliceofIndex\<rparr>,
     \<lparr>name = ''totable'', help' = helpToTable, index = helpToTableIndex\<rparr>]"

definition pkgFuncMap :: "string \<rightharpoonup> 'f fnval" where
  "pkgFuncMap = map_of
    [(''filter'', Pkg ''filterByField''),
     (''filterContains'', Pkg ''filterByContains''),
     (''filterHasPrefix'', Pkg ''filterByHasPrefix''),
     (''filterHasSuffix'', Pkg ''filterByHasSuffix''),
     (''filterFolded'', Pkg ''filterByFolded''),
     (''filterRegexp'', Pkg ''filterByRegexp''),
     (''tojson'', Pkg ''toJSON''),
     (''tocsv'', Pkg ''toCSV''),
     (''select'', Pkg ''selectField''),
     (''selectalt'', Pkg ''selectFieldAlt''),
     (''table'', Pkg ''table''),
     (''tablealt'', Pkg ''tableAlt''),
     (''tablex'', Pkg ''tablex''),
     (''tablexalt'', Pkg ''tablexAlt''),
     (''htable'', Pkg ''htable''),
     (''htablealt'', Pkg ''htableAlt''),
     (''htablex'', Pkg ''htablex''),
     (''htablexalt'', Pkg ''htablexAlt''),
     (''cols'', Pkg ''cols''),
     (''sort'', Pkg ''sortSlice''),
     (''rows'', Pkg ''rows''),
     (''head'', Pkg ''head''),
     (''tail'', Pkg ''tail''),
     (''describe'', Pkg ''describe''),
     (''promote'', Pkg ''promote''),
     (''sliceof'', Pkg ''sliceof''),
     (''totable'', Pkg ''toTable'')]"

section \<open>The option functions\<close>

definition OptAllFns :: "'f Config \<Rightarrow> panic + 'f Config" where
  "OptAllFns c = Inr (c\<lparr>funcMap := Some pkgFuncMap, funcHelp := funcHelpSlice\<rparr>)"

definition OptFilter :: "'f Config \<Rightarrow> panic + 'f Config" where
  "OptFilter c =
     (if mapHas (funcMap c) ''filter'' then Inr c
      else case mapAssign (funcMap c) ''filter'' (Pkg ''filterByField'') of
             Inl p \<Rightarrow> Inl p
           | Inr m \<Rightarrow> Inr (c\<lparr>funcMap := m, funcHelp := funcHelp c @
               [\<lparr>name = ''filter'', help' = helpFilter, index = helpFilterIndex\<rparr>]\<rparr>))"

definition OptFilterContains :: "'f Config \<Rightarrow> panic + 'f Config" where
  "OptFilterContains c =
     (if mapHas (funcMap c) ''filterContains'' then Inr c
      else case mapAssign (funcMap c) ''filterContains'' (Pkg ''filterByContains'') of
             Inl p \<Rightarrow> Inl p
           | Inr m \<Rightarrow> Inr (c\<lparr>funcMap := m, funcHelp := funcHelp c @
               [\<lparr>name = ''filterContains'', help' = helpFilterContains, index = helpFilterContainsIndex\<rparr>]\<rparr>))"

definition OptFilterHasPrefix :: "'f Config \<Rightarrow> panic + 'f Config" where
  "OptFilterHasPrefix c =
     (if mapHas (funcMap c) ''filterHasPrefix'' then Inr c
      else case mapAssign (funcMap c) ''filterHasPrefix'' (Pkg ''filterByHasPrefix'') of
             Inl p \<Rightarrow> Inl p
           | Inr m \<Rightarrow> Inr (c\<lparr>funcMap := m, funcHelp := funcHelp c @
               [\<lparr>name = ''filterHasPrefix'', help' = helpFilterHasPrefix, index = helpFilterHasPrefixIndex\<rparr>]\<rparr>))"

definition OptFilterHasSuffix :: "'f Config \<Rightarrow> panic + 'f Config" where
  "OptFilterHasSuffix c =
     (if mapHas (funcMap c) ''filterHasSuffix'' then Inr c
      else case mapAssign (funcMap c) ''filterHasSuffix'' (Pkg ''filterByHasSuffix'') of
             Inl p \<Rightarrow> Inl p
           | Inr m \<Rightarrow> Inr (c\<lparr>funcMap := m, funcHelp := funcHelp c @
               [\<lparr>name = ''filterHasSuffix'', help' = helpFilterHasSuffix, index = helpFilterHasSuffixIndex\<rparr>]\<rparr>))"

definition OptFilterFolded :: "'f Config \<Rightarrow> panic + 'f Config" where
  "OptFilterFolded c =
     (if mapHas (funcMap c) ''filterFolded'' then Inr c
      else case mapAssign (funcMap c) ''filterFolded'' (Pkg ''filterByFolded'') of
             Inl p \<Rightarrow> Inl p
           | Inr m \<Rightarrow> Inr (c\<lparr>funcMap := m, funcHelp := funcHelp c @
               [\<lparr>name = ''filterFolded'', help' = helpFilterFolded, index = helpFilterFoldedIndex\<rparr>]\<rparr>))"

definition OptFilterRegexp :: "'f Config \<Rightarrow> panic + 'f Config" where
  "OptFilterRegexp c =
     (if mapHas (funcMap c) ''filterRegexp'' then Inr c
      else case mapAssign (funcMap c) ''filterRegexp'' (Pkg ''filterByRegexp'') of
             Inl p \<Rightarrow> Inl p
           | Inr m \<Rightarrow> Inr (c\<lparr>funcMap := m, funcHelp := funcHelp c @
               [\<lparr>name = ''filterRegexp'', help' = helpFilterRegexp, index = helpFilterRegexpIndex\<rparr>]\<rparr>))"

definition OptToJSON :: "'f Config \<Rightarrow> panic + 'f Config" where
  "OptToJSON c =
     (if mapHas (funcMap c) ''tojson'' then Inr c
      else case mapAssign (funcMap c) ''tojson'' (Pkg ''toJSON'') of
             Inl p \<Rightarrow> Inl p
           | Inr m \<Rightarrow> Inr (c\<lparr>funcMap := m, funcHelp := funcHelp c @
               [\<lparr>name = ''tojson'', help' = helpToJSON, index = helpToJSONIndex\<rparr>]\<rparr>))"

definition OptToCSV :: "'f Config \<Rightarrow> panic + 'f Config" where
  "OptToCSV c =
     (if mapHas (funcMap c) ''tocsv'' then Inr c
      else case mapAssign (funcMap c) ''tocsv'' (Pkg ''toCSV'') of
             Inl p \<Rightarrow> Inl p
           | Inr m \<Rightarrow> Inr (c\<lparr>funcMap := m, funcHelp := funcHelp c @
               [\<lparr>name = ''tocsv'', help' = helpToCSV, index = helpToCSVIndex\<rparr>]\<rparr>))"

definition OptSelect :: "'f Config \<Rightarrow> panic + 'f Config" where
  "OptSelect c =
     (if mapHas (funcMap c) ''select'' then Inr c
      else case mapAssign (funcMap c) ''select'' (Pkg ''selectField'') of
             Inl p \<Rightarrow> Inl p
           | Inr m \<Rightarrow> Inr (c\<lparr>funcMap := m, funcHelp := funcHelp c @
               [\<lparr>name = ''select'', help' = helpSelect, index = helpSelectIndex\<rparr>]\<rparr>))"

definition OptSelectAlt :: "'f Config \<Rightarrow> panic + 'f Config" where
  "OptSelectAlt c =
     (if mapHas (funcMap c) ''selectalt'' then Inr c
      else case mapAssign (funcMap c) ''selectalt'' (Pkg ''selectFieldAlt'') of
             Inl p \<Rightarrow> Inl p
           | Inr m \<Rightarrow> Inr (c\<lparr>funcMap := m, funcHelp := funcHelp c @
               [\<lparr>name = ''selectalt'', help' = helpSelectAlt, index = helpSelectAltIndex\<rparr>]\<rparr>))"

definition OptTable :: "'f Config \<Rightarrow> panic + 'f Config" where
  "OptTable c =
     (if mapHas (funcMap c) ''table'' then Inr c
      else case mapAssign (funcMap c) ''table'' (Pkg ''table'') of
             Inl p \<Rightarrow> Inl p
           | Inr m \<Rightarrow> Inr (c\<lparr>funcMap := m, funcHelp := funcHelp c @
               [\<lparr>name = ''table'', help' = helpTable, index = helpTableIndex\<rparr>]\<rparr>))"

definition OptTableAlt :: "'f Config \<Rightarrow> panic + 'f Config" where
  "OptTableAlt c =
     (if mapHas (funcMap c) ''tablealt'' then Inr c
      else case mapAssign (funcMap c) ''tablealt'' (Pkg ''tableAlt'') of
             Inl p \<Rightarrow> Inl p
           | Inr m \<Rightarrow> Inr (c\<lparr>funcMap := m, funcHelp := funcHelp c @
               [\<lparr>name = ''tablealt'', help' = helpTableAlt, index = helpTableAltIndex\<rparr>]\<rparr>))"

definition OptTableX :: "'f Config \<Rightarrow> panic + 'f Config" where
  "OptTableX c =
     (if mapHas (funcMap c) ''tablex'' then Inr c
      else case mapAssign (funcMap c) ''tablex'' (Pkg ''tablex'') of
             Inl p \<Rightarrow> Inl p
           | Inr m \<Rightarrow> Inr (c\<lparr>funcMap := m, funcHelp := funcHelp c @
               [\<lparr>name = ''tablex'', help' = helpTableX, index = helpTableXIndex\<rparr>]\<rparr>))"

definition OptTableXAlt :: "'f Config \<Rightarrow> panic + 'f Config" where
  "OptTableXAlt c =
     (if mapHas (funcMap c) ''tablexalt'' then Inr c
      else case mapAssign (funcMap c) ''tablexalt'' (Pkg ''tablexAlt'') of
             Inl p \<Rightarrow> Inl p
           | Inr m \<Rightarrow> Inr (c\<lparr>funcMap := m, funcHelp := funcHelp c @
               [\<lparr>name = ''tablexalt'', help' = helpTableXAlt, index = helpTableXAltIndex\<rparr>]\<rparr>))"

definition OptHTable :: "'f Config \<Rightarrow> panic + 'f Config" where
  "OptHTable c =
     (if mapHas (funcMap c) ''htable'' then Inr c
      else case mapAssign (funcMap c) ''htable'' (Pkg ''htable'') of
             Inl p \<Rightarrow> Inl p
           | Inr m \<Rightarrow> Inr (c\<lparr>funcMap := m, funcHelp := funcHelp c @
               [\<lparr>name = ''htable'', help' = helpHTable, index = helpHTableIndex\<rparr>]\<rparr>))"

definition OptHTableAlt :: "'f Config \<Rightarrow> panic + 'f Config" where
  "OptHTableAlt c =
     (if mapHas (funcMap c) ''htablealt'' then Inr c
      else case mapAssign (funcMap c) ''htablealt'' (Pkg ''htableAlt'') of
             Inl p \<Rightarrow> Inl p
           | Inr m \<Rightarrow> Inr (c\<lparr>funcMap := m, funcHelp := funcHelp c @
               [\<lparr>name = ''htablealt'', help' = helpHTableAlt, index = helpHTableAltIndex\<rparr>]\<rparr>))"

definition OptHTableX :: "'f Config \<Rightarrow> panic + 'f Config" where
  "OptHTableX c =
     (if mapHas (funcMap c) ''htablex'' then Inr c
      else case mapAssign (funcMap c) ''htablex'' (Pkg ''htablex'') of
             Inl p \<Rightarrow> Inl p
           | Inr m \<Rightarrow> Inr (c\<lparr>funcMap := m, funcHelp := funcHelp c @
               [\<lparr>name = ''htablex'', help' = helpHTableX, index = helpHTableXIndex\<rparr>]\<rparr>))"

definition OptHTableXAlt :: "'f Config \<Rightarrow> panic + 'f Config" where
  "OptHTableXAlt c =
     (if mapHas (funcMap c) ''htablexalt'' then Inr c
      else case mapAssign (funcMap c) ''htablexalt'' (Pkg ''htablexAlt'') of
             Inl p \<Rightarrow> Inl p
           | Inr m \<Rightarrow> Inr (c\<lparr>funcMap := m, funcHelp := funcHelp c @
               [\<lparr>name = ''htablexalt'', help' = helpHTableXAlt, index = helpHTableXAltIndex\<rparr>]\<rparr>))"

definition OptCols :: "'f Config \<Rightarrow> panic + 'f Config" where
  "OptCols c =
     (if mapHas (funcMap c) ''cols'' then Inr c
      else case mapAssign (funcMap c) ''cols'' (Pkg ''cols'') of
             Inl p \<Rightarrow> Inl p
           | Inr m \<Rightarrow> Inr (c\<lparr>funcMap := m, funcHelp := funcHelp c @
               [\<lparr>name = ''cols'', help' = helpCols, index = helpColsIndex\<rparr>]\<rparr>))"

definition OptSort :: "'f Config \<Rightarrow> panic + 'f Config" where
  "OptSort c =
     (if mapHas (funcMap c) ''sort'' then Inr c
      else case mapAssign (funcMap c) ''sort'' (Pkg ''sortSlice'') of
             Inl p \<Rightarrow> Inl p
           | Inr m \<Rightarrow> Inr (c\<lparr>funcMap := m, funcHelp := funcHelp c @
               [\<lparr>name = ''sort'', help' = helpSort, index = helpSortIndex\<rparr>]\<rparr>))"

definition OptRows :: "'f Config \<Rightarrow> panic + 'f Config" where
  "OptRows c =
     (if mapHas (funcMap c) ''rows'' then Inr c
      else case mapAssign (funcMap c) ''rows'' (Pkg ''rows'') of
             Inl p \<Rightarrow> Inl p
           | Inr m \<Rightarrow> Inr (c\<lparr>funcMap := m, funcHelp := funcHelp c @
               [\<lparr>name = ''rows'', help' = helpRows, index = helpRowsIndex\<rparr>]\<rparr>))"

definition OptHead :: "'f Config \<Rightarrow> panic + 'f Config" where
  "OptHead c =
     (if mapHas (funcMap c) ''head'' then Inr c
      else case mapAssign (funcMap c) ''head'' (Pkg ''head'') of
             Inl p \<Rightarrow> Inl p
           | Inr m \<Rightarrow> Inr (c\<lparr>funcMap := m, funcHelp := funcHelp c @
               [\<lparr>name = ''head'', help' = helpHead, index = helpHeadIndex\<rparr>]\<rparr>))"

definition OptTail :: "'f Config \<Rightarrow> panic + 'f Config" where
  "OptTail c =
     (if mapHas (funcMap c) ''tail'' then Inr c
      else case mapAssign (funcMap c) ''tail'' (Pkg ''tail'') of
             Inl p \<Rightarrow> Inl p
           | Inr m \<Rightarrow> Inr (c\<lparr>funcMap := m, funcHelp := funcHelp c @
               [\<lparr>name = ''tail'', help' = helpTail, index = helpTailIndex\<rparr>]\<rparr>))"

definition OptDescribe :: "'f Config \<Rightarrow> panic + 'f Config" where
  "OptDescribe c =
     (if mapHas (funcMap c) ''describe'' then Inr c
      else case mapAssign (funcMap c) ''describe'' (Pkg ''describe'') of
             Inl p \<Rightarrow> Inl p
           | Inr m \<Rightarrow> Inr (c\<lparr>funcMap := m, funcHelp := funcHelp c @
               [\<lparr>name = ''describe'', help' = helpDescribe, index = helpDescribeIndex\<rparr>]\<rparr>))"

definition OptPromote :: "'f Config \<Rightarrow> panic + 'f Config" where
  "OptPromote c =
     (if mapHas (funcMap c) ''promote'' then Inr c
      else case mapAssign (funcMap c) ''promote'' (Pkg ''promote'') of
             Inl p \<Rightarrow> Inl p
           | Inr m \<Rightarrow> Inr (c\<lparr>funcMap := m, funcHelp := funcHelp c @
               [\<lparr>name = ''promote'', help' = helpPromote, index = helpPromoteIndex\<rparr>]\<rparr>))"

definition OptSliceof :: "'f Config \<Rightarrow> panic + 'f Config" where
  "OptSliceof c =
     (if mapHas (funcMap c) ''sliceof'' then Inr c
      else case mapAssign (funcMap c) ''sliceof'' (Pkg ''sliceof'') of
             Inl p \<Rightarrow> Inl p
           | Inr m \<Rightarrow> Inr (c\<lparr>funcMap := m, funcHelp := funcHelp c @
               [\<lparr>name = ''sliceof'', help' = helpSliceof, index = helpSliceofIndex\<rparr>]\<rparr>))"

definition OptToTable :: "'f Config \<Rightarrow> panic + 'f Config" where
  "OptToTable c =
     (if mapHas (funcMap c) ''totable'' then Inr c
      else case mapAssign (funcMap c) ''totable'' (Pkg ''toTable'') of
             Inl p \<Rightarrow> Inl p
           | Inr m \<Rightarrow> Inr (c\<lparr>funcMap := m, funcHelp := funcHelp c @
               [\<lparr>name = ''totable'', help' = helpToTable, index = helpToTableIndex\<rparr>]\<rparr>))"

text \<open>A sequence of calls on the same Config stops at the first panic.\<close>

fun applyOptions :: "('f Config \<Rightarrow> panic + 'f Config) list \<Rightarrow> 'f Config \<Rightarrow> panic + 'f Config" where
  "applyOptions [] c = Inr c"
| "applyOptions (f # fs) c = (case f c of Inl p \<Rightarrow> Inl p | Inr c1 \<Rightarrow> applyOptions fs c1)"

definition OptAllFilters :: "'f Config \<Rightarrow> panic + 'f Config" where
  "OptAllFilters c =
     applyOptions [OptFilter, OptFilterContains, OptFilterHasPrefix, OptFilterHasSuffix,
       OptFilterFolded, OptFilterRegexp] c"

text \<open>
  \<open>sort.Sort(c)\<close> belongs to the standard library. It rearranges \<open>c.funcHelp\<close> through
  \<open>Swap\<close> until \<open>Less\<close>, which compares the \<open>index\<close> of two entries, holds of no entry and
  an earlier one; it is not guaranteed to be stable, and which algorithm it runs depends on
  the length of the slice and on the version of the library. It is the parameter \<open>sortSort\<close>,
  a function on the help list; \<open>sortsByLess\<close> says of such a function what the library
  documents: the result is a rearrangement of the list in ascending order of \<open>index\<close>.
\<close>

definition sortsByLess :: "(funcHelpInfo list \<Rightarrow> funcHelpInfo list) \<Rightarrow> bool" where
  "sortsByLess sortSort \<longleftrightarrow>
     (\<forall>hs. mset (sortSort hs) = mset hs \<and> sorted (map index (sortSort hs)))"

definition NewConfig ::
  "(funcHelpInfo list \<Rightarrow> funcHelpInfo list) \<Rightarrow> ('f Config \<Rightarrow> panic + 'f Config) list \<Rightarrow>
     panic + 'f Config" where
  "NewConfig sortSort options =
     (case applyOptions options \<lparr>funcMap = Some Map.empty, funcHelp = []\<rparr> of
        Inl p \<Rightarrow> Inl p
      | Inr c \<Rightarrow> Inr (c\<lparr>funcHelp := sortSort (funcHelp c)\<rparr>))"

section \<open>Help output and templates\<close>

text \<open>
  Modelled from the spec: \<open>getHelpers\<close> and \<open>getFuncMap\<close> are declared outside
  \<open>tfortools.go\<close>. "If c is nil, documentation is generated for all functions provided by
  tfortools", and "if cfg is nil, all the additional functions provided by tfortools will be
  enabled"; otherwise they read the Config's own fields.
\<close>

definition getHelpers :: "'f Config option \<Rightarrow> funcHelpInfo list" where
  "getHelpers cfg = (case cfg of None \<Rightarrow> funcHelpSlice | Some c \<Rightarrow> funcHelp c)"

definition getFuncMap :: "'f Config option \<Rightarrow> (string \<rightharpoonup> 'f fnval) option" where
  "getFuncMap cfg = (case cfg of None \<Rightarrow> Some pkgFuncMap | Some c \<Rightarrow> funcMap c)"

definition TemplateFunctionHelp :: "'f Config option \<Rightarrow> string" where
  "TemplateFunctionHelp c =
     ''Some new functions have been added to Go's template language\<newline>\<newline>'' @
     concat (map help' (getHelpers c))"

definition TemplateFunctionNames :: "'f Config option \<Rightarrow> string list" where
  "TemplateFunctionNames c = map name (getHelpers c)"

definition TemplateFunctionHelpSingle :: "string \<Rightarrow> 'f Config option \<Rightarrow> string \<times> error" where
  "TemplateFunctionHelpSingle nm c =
     (case find (\<lambda>h. name h = nm) (getHelpers c) of
        Some h \<Rightarrow> (help' h, None)
      | None \<Rightarrow> ('''', Some (nm @ '' is not defined'')))"

text \<open>
  \<open>template.New(name).Funcs(fm).Parse(src)\<close> belongs to the standard library; it is the
  parameter \<open>parse\<close>, which returns the template and the error of \<open>Parse\<close>.
\<close>

definition CreateTemplate ::
  "(string \<Rightarrow> (string \<rightharpoonup> 'f fnval) option \<Rightarrow> string \<Rightarrow> 't option \<times> error) \<Rightarrow>
   string \<Rightarrow> string \<Rightarrow> 'f Config option \<Rightarrow> 't option \<times> error" where
  "CreateTemplate parse nm tmplSrc cfg =
     (if tmplSrc = '''' then (None, Some (''template '' @ nm @ '' contains no source''))
      else parse nm (getFuncMap cfg) tmplSrc)"

section \<open>Notions used to state the properties\<close>

text \<open>
  Every \<open>Opt\<close> function that enables one operation has the same body: it returns when the
  name is a key of the function map, and otherwise stores the function and appends the help
  entry. \<open>enableFn\<close> is that body; \<open>singleOpts\<close> lists these functions with the name of
  the operation, in the order of the source file.
\<close>

definition enableFn ::
  "'f Config \<Rightarrow> string \<Rightarrow> 'f fnval \<Rightarrow> string \<Rightarrow> int \<Rightarrow> panic + 'f Config" where
  "enableFn c nm fn h i =
     (if mapHas (funcMap c) nm then Inr c
      else case mapAssign (funcMap c) nm fn of
             Inl p \<Rightarrow> Inl p
           | Inr m \<Rightarrow> Inr (c\<lparr>funcMap := m, funcHelp := funcHelp c @
               [\<lparr>name = nm, help' = h, index = i\<rparr>]\<rparr>))"

definition singleOpts :: "(string \<times> ('f Config \<Rightarrow> panic + 'f Config)) list" where
  "singleOpts =
    [(''filter'', OptFilter),
     (''filterContains'', OptFilterContains),
     (''filterHasPrefix'', OptFilterHasPrefix),
     (''filterHasSuffix'', OptFilterHasSuffix),
     (''filterFolded'', OptFilterFolded),
     (''filterRegexp'', OptFilterRegexp),
     (''tojson'', OptToJSON),
     (''tocsv'', OptToCSV),
     (''select'', OptSelect),
     (''selectalt'', OptSelectAlt),
     (''table'', OptTable),
     (''tablealt'', OptTableAlt),
     (''tablex'', OptTableX),
     (''tablexalt'', OptTableXAlt),
     (''htable'', OptHTable),
     (''htablealt'', OptHTableAlt),
     (''htablex'', OptHTableX),
     (''htablexalt'', OptHTableXAlt),
     (''cols'', OptCols),
     (''sort'', OptSort),
     (''rows'', OptRows),
     (''head'', OptHead),
     (''tail'', OptTail),
     (''describe'', OptDescribe),
     (''promote'', OptPromote),
     (''sliceof'', OptSliceof),
     (''totable'', OptToTable)]"

text \<open>
  \<open>filterNames\<close> are the names of the six operations that \<open>OptAllFilters\<close> enables.
  \<open>pkgOptions\<close> lists all option functions of the package, each with the names of the
  operations it enables.
\<close>

definition filterNames :: "string list" where
  "filterNames = [''filter'', ''filterContains'', ''filterHasPrefix'', ''filterHasSuffix'',
       ''filterFolded'', ''filterRegexp'']"

definition pkgOptions :: "(string list \<times> ('f Config \<Rightarrow> panic + 'f Config)) list" where
  "pkgOptions =
     (map name funcHelpSlice, OptAllFns) #
     (filterNames, OptAllFilters) #
     map (\<lambda>(nm, f). ([nm], f)) singleOpts"

text \<open>
  A caller adds custom functions by calling \<open>AddCustomFn\<close> on the Config that \<open>NewConfig\<close>
  returned. \<open>addCustomFns c calls\<close> makes the calls in turn, each with its function, name and
  help text, whatever error a call returns. \<open>customEntry\<close> is the help entry that a call
  appends when it records help, and \<open>customHelp K calls\<close> lists the entries that the calls
  append to a Config whose function map has the keys \<open>K\<close>: a call records nothing when its
  name is taken, registers the name in every other case, and then appends its entry unless
  the help text is white space only.
\<close>

fun addCustomFns :: "'f Config \<Rightarrow> ('f \<times> string \<times> string) list \<Rightarrow> panic + 'f Config" where
  "addCustomFns c [] = Inr c"
| "addCustomFns c ((fn, nm, helpText) # calls) =
     (case AddCustomFn c fn nm helpText of
        Inl p \<Rightarrow> Inl p
      | Inr (e, c1) \<Rightarrow> addCustomFns c1 calls)"

definition customEntry :: "'f \<times> string \<times> string \<Rightarrow> funcHelpInfo" where
  "customEntry call = (case call of (fn, nm, helpText) \<Rightarrow>
     \<lparr>name = nm, help' = TrimRightSpace helpText @ ''\<newline>'', index = helpIndexCount\<rparr>)"

fun customHelp :: "string set \<Rightarrow> ('f \<times> string \<times> string) list \<Rightarrow> funcHelpInfo list" where
  "customHelp K [] = []"
| "customHelp K ((fn, nm, helpText) # calls) =
     (if nm \<in> K then customHelp K calls
      else if TrimRightSpace helpText = [] then customHelp (insert nm K) calls
      else customEntry (fn, nm, helpText) # customHelp (insert nm K) calls)"

text \<open>
  \<open>enabledBy c S\<close>: the Config \<open>c\<close> holds exactly the package's operations named in \<open>S\<close>,
  each once. \<open>helpNamesOk c\<close>: no name has two help entries, and every name with a help
  entry is a key of the function map.
\<close>

definition enabledBy :: "'f Config \<Rightarrow> string set \<Rightarrow> bool" where
  "enabledBy c S \<longleftrightarrow>
     S \<subseteq> name ` set funcHelpSlice \<and>
     funcMap c = Some (pkgFuncMap |` S) \<and>
     distinct (funcHelp c) \<and>
     set (funcHelp c) = {h \<in> set funcHelpSlice. name h \<in> S}"

definition helpNamesOk :: "'f Config \<Rightarrow> bool" where
  "helpNamesOk c \<longleftrightarrow>
     distinct (map name (funcHelp c)) \<and> list_all (\<lambda>h. mapHas (funcMap c) (name h)) (funcHelp c)"

text \<open>
  \<open>onlySpaces s\<close>: the string is a sequence of white space runes (it may be empty).
\<close>

definition onlySpaces :: "string \<Rightarrow> bool" where
  "onlySpaces s \<longleftrightarrow> (\<exists>ws. set ws \<subseteq> set whiteSpace \<and> s = concat ws)"

section \<open>The collection operations\<close>

text \<open>
  The functions that \<open>tfortools.go\<close> registers under the names \<open>head\<close>, \<open>rows\<close> and \<open>sort\<close>
  are declared in other files of the package. They are modelled from the specification,
  sections 3, 4.2, 4.3, 4.5, 4.6 and 7, and from the help texts above.
\<close>

text \<open>The error kinds of section 7 of the specification.\<close>

datatype callError = ShapeError | FieldNotFound | NotARecord | ArgumentError | ParseError

text \<open>
  Modelled from the spec: \<open>head\<close> is not in \<open>tfortools.go\<close>. "head(collection, n=1): return
  the first min(n, len) elements; n<0 is a call error; n greater than length returns the
  whole collection unchanged." The count is optional.
\<close>

definition head :: "'r list \<Rightarrow> int option \<Rightarrow> callError + 'r list" where
  "head c cnt =
     (let n = (case cnt of None \<Rightarrow> 1 | Some k \<Rightarrow> k)
      in if n < 0 then Inl ArgumentError
         else if n > int (length c) then Inr c
         else Inr (take (nat n) c))"

text \<open>
  Modelled from the spec: \<open>rows\<close> is not in \<open>tfortools.go\<close>. "rows(collection, indices...):
  returns records at the given 0-based indices, in the order given; out-of-range indices
  are silently skipped (not an error)." The indices are visited in turn; \<open>out\<close> is the
  result built so far.
\<close>

fun rowsFrom :: "'r list \<Rightarrow> int list \<Rightarrow> 'r list \<Rightarrow> 'r list" where
  "rowsFrom c [] out = out"
| "rowsFrom c (i # indices) out =
     (if 0 \<le> i \<and> i < int (length c) then rowsFrom c indices (out @ [c ! nat i])
      else rowsFrom c indices out)"

definition rows :: "'r list \<Rightarrow> int list \<Rightarrow> callError + 'r list" where
  "rows c indices = Inr (rowsFrom c indices [])"

text \<open>
  Modelled from the spec: the sort function is not in \<open>tfortools.go\<close>. A record is its ordered
  list of named fields. The Field Path Resolver, on a single field name, yields the field's
  value or nothing. The Comparator "compare(a, b) -> {less, equal, greater}" is a parameter
  of the sort; a field that fails to resolve is "placed consistently as the minimum value".
\<close>

type_synonym 'v record' = "(string \<times> 'v) list"

datatype ordering = Less | Equal | Greater

definition resolve :: "'v record' \<Rightarrow> string \<Rightarrow> 'v option" where
  "resolve r f = map_of r f"

fun compareKey :: "('v \<Rightarrow> 'v \<Rightarrow> ordering) \<Rightarrow> 'v option \<Rightarrow> 'v option \<Rightarrow> ordering" where
  "compareKey compare None None = Equal"
| "compareKey compare None (Some b) = Less"
| "compareKey compare (Some a) None = Greater"
| "compareKey compare (Some a) (Some b) = compare a b"

text \<open>
  "direction optional, default ascending; invalid direction string is a call error"; the
  help text of \<open>sort\<close>: "If provided, it must be either "asc" or "dsc"". The result is
  whether the sort is ascending.
\<close>

definition direction :: "string option \<Rightarrow> callError + bool" where
  "direction d =
     (case d of
        None \<Rightarrow> Inr True
      | Some s \<Rightarrow> if s = ''asc'' then Inr True
                  else if s = ''dsc'' then Inr False
                  else Inl ArgumentError)"

text \<open>
  \<open>before compare f ascending a b\<close>: record \<open>a\<close> must come before record \<open>b\<close>. "Sort is stable":
  the sort is the insertion sort that moves a record only past records that must come
  before it.
\<close>

definition before ::
  "('v \<Rightarrow> 'v \<Rightarrow> ordering) \<Rightarrow> string \<Rightarrow> bool \<Rightarrow> 'v record' \<Rightarrow> 'v record' \<Rightarrow> bool" where
  "before compare f ascending a b =
     (compareKey compare (resolve a f) (resolve b f) = (if ascending then Less else Greater))"

fun insertStable :: "('r \<Rightarrow> 'r \<Rightarrow> bool) \<Rightarrow> 'r \<Rightarrow> 'r list \<Rightarrow> 'r list" where
  "insertStable lt x [] = [x]"
| "insertStable lt x (y # ys) = (if lt y x then y # insertStable lt x ys else x # y # ys)"

definition sortStable :: "('r \<Rightarrow> 'r \<Rightarrow> bool) \<Rightarrow> 'r list \<Rightarrow> 'r list" where
  "sortStable lt xs = foldr (insertStable lt) xs []"

text \<open>
  "Produces a new collection; the original is untouched." Collections are held in a store
  and passed by reference; \<open>nxt\<close> is the next free reference. A reference that the store does
  not hold is not a collection (a \<open>ShapeError\<close>).
\<close>

record 'r store =
  colls :: "nat \<rightharpoonup> 'r list"
  nxt :: nat

definition deref :: "'r store \<Rightarrow> nat \<Rightarrow> 'r list option" where
  "deref st r = (if r < nxt st then colls st r else None)"

definition sortBy ::
  "('v \<Rightarrow> 'v \<Rightarrow> ordering) \<Rightarrow> 'v record' store \<Rightarrow> nat \<Rightarrow> string \<Rightarrow> string option \<Rightarrow>
     callError + (nat \<times> 'v record' store)" where
  "sortBy compare st r f d =
     (case direction d of
        Inl e \<Rightarrow> Inl e
      | Inr ascending \<Rightarrow>
          (case deref st r of
             None \<Rightarrow> Inl ShapeError
           | Some c \<Rightarrow>
               Inr (nxt st, st\<lparr>colls := (colls st)(nxt st \<mapsto> sortStable (before compare f ascending) c),
                                nxt := nxt st + 1\<rparr>)))"

text \<open>
  Modelled from the spec: the Comparator is not in \<open>tfortools.go\<close>. "Numeric kinds compare
  numerically": \<open>compareInt\<close> is the Comparator on integer values.
\<close>

definition compareInt :: "int \<Rightarrow> int \<Rightarrow> ordering" where
  "compareInt a b = (if a < b then Less else if a = b then Equal else Greater)"

section \<open>table and totable\<close>

text \<open>
  Modelled from the spec: the functions registered as \<open>table\<close> and \<open>totable\<close> are not in
  \<open>tfortools.go\<close>. Sections 3, 4.7 and 4.8 of the specification: a field value is a boolean,
  an integer, a floating-point number or a string (the kinds of the round trip); cells hold
  the canonical string form of a value. Floating-point values are left abstract: their
  canonical form \<open>fmtFloat\<close> and their parser \<open>parseFloat\<close> are parameters.
\<close>

datatype 'fl fieldValue = VBool bool | VInt int | VFloat 'fl | VString string

datatype kind = KBool | KInt | KFloat | KString

fun kindOf :: "'fl fieldValue \<Rightarrow> kind" where
  "kindOf (VBool b) = KBool"
| "kindOf (VInt i) = KInt"
| "kindOf (VFloat x) = KFloat"
| "kindOf (VString s) = KString"

text \<open>
  The canonical string form of an integer is its decimal numeral, with a minus sign when it
  is negative; of a boolean, \<open>true\<close> or \<open>false\<close>; of a string, the string.
\<close>

definition digit :: "nat \<Rightarrow> char" where
  "digit d = char_of (48 + d)"

function showNat :: "nat \<Rightarrow> string" where
  "showNat n = (if n < 10 then [digit n] else showNat (n div 10) @ [digit (n mod 10)])"
  by pat_completeness auto
termination
  by (relation "measure id") auto

declare showNat.simps [simp del]

definition showInt :: "int \<Rightarrow> string" where
  "showInt i = (if i < 0 then CHR ''-'' # showNat (nat (- i)) else showNat (nat i))"

fun render :: "('fl \<Rightarrow> string) \<Rightarrow> 'fl fieldValue \<Rightarrow> string" where
  "render fmtFloat (VBool b) = (if b then ''true'' else ''false'')"
| "render fmtFloat (VInt i) = showInt i"
| "render fmtFloat (VFloat x) = fmtFloat x"
| "render fmtFloat (VString s) = s"

text \<open>
  Modelled from the spec: the parsers that \<open>totable\<close> attempts. A boolean is read from the
  two canonical forms, an integer from a non-empty sequence of decimal digits after an
  optional sign.
\<close>

definition parseBool :: "string \<Rightarrow> bool option" where
  "parseBool s = (if s = ''true'' then Some True else if s = ''false'' then Some False else None)"

fun parseDigits :: "nat \<Rightarrow> string \<Rightarrow> nat option" where
  "parseDigits acc [] = Some acc"
| "parseDigits acc (c # cs) =
     (if 48 \<le> (of_char c :: nat) \<and> (of_char c :: nat) \<le> 57
      then parseDigits (acc * 10 + (of_char c - 48)) cs
      else None)"

definition parseNat :: "string \<Rightarrow> nat option" where
  "parseNat s = (if s = [] then None else parseDigits 0 s)"

definition parseInt :: "string \<Rightarrow> int option" where
  "parseInt s =
     (case s of
        [] \<Rightarrow> None
      | c # r \<Rightarrow>
          if c = CHR ''-'' then map_option (\<lambda>n. - int n) (parseNat r)
          else if c = CHR ''+'' then map_option int (parseNat r)
          else map_option int (parseNat s))"

text \<open>
  Modelled from the spec, section 4.7: "one output row per input record, one output column
  per visible field", "header row from field names", "values are rendered via each value's
  canonical string form", and "an empty collection renders a header-only (or empty) table
  without error". \<open>table\<close> yields the string grid of the table; the field names are those of
  the record type, which an empty collection has too.
\<close>

definition table ::
  "('fl \<Rightarrow> string) \<Rightarrow> string list \<Rightarrow> 'fl fieldValue record' list \<Rightarrow> string list list" where
  "table fmtFloat names c = names # map (map (\<lambda>(n, v). render fmtFloat v)) c"

text \<open>
  Modelled from the spec, section 4.8: "row 1 establishes, per column, the inferred kind by
  attempting, in priority order, boolean, integer, floating point, string (first successful
  parse wins)"; "all subsequent rows in that column are parsed with the same kind; a value
  that fails to parse under the column's established kind is a call error".
\<close>

definition inferKind :: "(string \<Rightarrow> 'fl option) \<Rightarrow> string \<Rightarrow> kind" where
  "inferKind parseFloat s =
     (if parseBool s \<noteq> None then KBool
      else if parseInt s \<noteq> None then KInt
      else if parseFloat s \<noteq> None then KFloat
      else KString)"

fun parseAs :: "(string \<Rightarrow> 'fl option) \<Rightarrow> kind \<Rightarrow> string \<Rightarrow> 'fl fieldValue option" where
  "parseAs parseFloat KBool s = map_option VBool (parseBool s)"
| "parseAs parseFloat KInt s = map_option VInt (parseInt s)"
| "parseAs parseFloat KFloat s = map_option VFloat (parseFloat s)"
| "parseAs parseFloat KString s = Some (VString s)"

text \<open>
  A row is read cell by cell against the field names and the kinds of the columns; a row
  that has not one cell per column is not a row of the grid (a \<open>ShapeError\<close>).
\<close>

fun parseRow ::
  "(string \<Rightarrow> 'fl option) \<Rightarrow> string list \<Rightarrow> kind list \<Rightarrow> string list \<Rightarrow>
     callError + 'fl fieldValue record'" where
  "parseRow parseFloat [] [] [] = Inr []"
| "parseRow parseFloat (n # ns) (k # ks) (s # ss) =
     (case parseAs parseFloat k s of
        None \<Rightarrow> Inl ParseError
      | Some v \<Rightarrow>
          (case parseRow parseFloat ns ks ss of
             Inl e \<Rightarrow> Inl e
           | Inr r \<Rightarrow> Inr ((n, v) # r)))"
| "parseRow parseFloat ns ks ss = Inl ShapeError"

fun parseRows ::
  "(string \<Rightarrow> 'fl option) \<Rightarrow> string list \<Rightarrow> kind list \<Rightarrow> string list list \<Rightarrow>
     callError + 'fl fieldValue record' list" where
  "parseRows parseFloat ns ks [] = Inr []"
| "parseRows parseFloat ns ks (row # others) =
     (case parseRow parseFloat ns ks row of
        Inl e \<Rightarrow> Inl e
      | Inr r \<Rightarrow>
          (case parseRows parseFloat ns ks others of
             Inl e \<Rightarrow> Inl e
           | Inr rs \<Rightarrow> Inr (r # rs)))"

text \<open>
  "Input is a grid of strings with at least 2 rows; row 0 is field names (must be non-empty
  and unique; names are sanitized into valid identifiers if necessary)". How names are
  sanitized is the parameter \<open>sanitize\<close>.
\<close>

definition toTable ::
  "(string list \<Rightarrow> string list) \<Rightarrow> (string \<Rightarrow> 'fl option) \<Rightarrow> string list list \<Rightarrow>
     callError + 'fl fieldValue record' list" where
  "toTable sanitize parseFloat grid =
     (case grid of
        names # first # rest \<Rightarrow>
          if [] \<in> set names \<or> \<not> distinct names then Inl ArgumentError
          else parseRows parseFloat (sanitize names) (map (inferKind parseFloat) first)
                 (first # rest)
      | _ \<Rightarrow> Inl ArgumentError)"

text \<open>
  "Up to canonical string formatting": two values are the same when they are equal, or are
  floating-point numbers with the same canonical string form.
\<close>

fun sameValue :: "('fl \<Rightarrow> string) \<Rightarrow> 'fl fieldValue \<Rightarrow> 'fl fieldValue \<Rightarrow> bool" where
  "sameValue fmtFloat (VFloat x) (VFloat y) = (fmtFloat x = fmtFloat y)"
| "sameValue fmtFloat v w = (v = w)"

definition sameRecords ::
  "('fl \<Rightarrow> string) \<Rightarrow> 'fl fieldValue record' list \<Rightarrow> 'fl fieldValue record' list \<Rightarrow> bool" where
  "sameRecords fmtFloat c c1 =
     list_all2 (list_all2 (\<lambda>(n, v) (n1, v1). n1 = n \<and> sameValue fmtFloat v v1)) c c1"

text \<open>
  A value survives the round trip when its canonical form parses back: every boolean,
  integer and string does, a floating-point number when the parser reads its canonical form
  as a number with the same canonical form.
\<close>

definition floatReadable :: "('fl \<Rightarrow> string) \<Rightarrow> (string \<Rightarrow> 'fl option) \<Rightarrow> 'fl fieldValue \<Rightarrow> bool" where
  "floatReadable fmtFloat parseFloat v =
     (case v of
        VFloat x \<Rightarrow> (case parseFloat (fmtFloat x) of None \<Rightarrow> False | Some y \<Rightarrow> fmtFloat y = fmtFloat x)
      | _ \<Rightarrow> True)"

text \<open>
  The kind that row 1 infers for a value is the value's own kind for every boolean and
  integer; for a string or a floating-point number it is so unless an earlier parser of the
  priority order reads its canonical form.
\<close>

definition inferredAsIs :: "('fl \<Rightarrow> string) \<Rightarrow> (string \<Rightarrow> 'fl option) \<Rightarrow> 'fl fieldValue \<Rightarrow> bool" where
  "inferredAsIs fmtFloat parseFloat v = (inferKind parseFloat (render fmtFloat v) = kindOf v)"

section \<open>Go maps\<close>

lemma mapHas_Some [simp]: "mapHas (Some t) k = (k \<in> dom t)"
  by (auto simp: mapHas_def)

lemma mapHas_None [simp]: "mapHas None k = False"
  by (simp add: mapHas_def)

lemma mapAssign_Some [simp]: "mapAssign (Some t) k v = Inr (Some (t(k \<mapsto> v)))"
  by (simp add: mapAssign_def)

lemma mapAssign_None [simp]: "mapAssign None k v = Inl NilMapAssign"
  by (simp add: mapAssign_def)

section \<open>AddCustomFn: duplicate names\<close>

text \<open>
  C4. \<open>AddCustomFn\<close> returns an error exactly when the name is already a key of the
  Config's function map. When it returns an error the Config is the one it was given
  (function map and help list included) and the message is "<name> already exists". When it
  returns no error, the function map holds the function under the name. On a Config whose
  function map is not \<open>nil\<close> the call always returns; on the zero Config the assignment to
  the \<open>nil\<close> map panics, no error is returned and no name is present.
\<close>

theorem AddCustomFn_error_iff_present:
  "((\<exists>e c1. AddCustomFn c fn nm helpText = Inr (Some e, c1)) \<longleftrightarrow> mapHas (funcMap c) nm) \<and>
   (\<forall>e c1. AddCustomFn c fn nm helpText = Inr (Some e, c1) \<longrightarrow>
      c1 = c \<and> e = nm @ '' already exists'') \<and>
   (\<forall>c1. AddCustomFn c fn nm helpText = Inr (None, c1) \<longrightarrow>
      (\<exists>t. funcMap c = Some t \<and> funcMap c1 = Some (t(nm \<mapsto> Custom fn)))) \<and>
   (funcMap c \<noteq> None \<longrightarrow> (\<exists>r. AddCustomFn c fn nm helpText = Inr r))"
  by (cases "funcMap c") (auto simp: AddCustomFn_def Let_def)

theorem AddCustomFn_error_iff_present_witness:
  "AddCustomFn \<lparr>funcMap = Some [''f'' \<mapsto> Custom (0::nat)], funcHelp = []\<rparr> 1 ''f'' ''h'' =
     Inr (Some ''f already exists'', \<lparr>funcMap = Some [''f'' \<mapsto> Custom 0], funcHelp = []\<rparr>) \<and>
   mapHas (Some [''f'' \<mapsto> Custom (0::nat)]) ''f'' \<and>
   (\<exists>c1. AddCustomFn \<lparr>funcMap = Some [''f'' \<mapsto> Custom (0::nat)], funcHelp = []\<rparr> 1 ''g'' '''' =
           Inr (None, c1) \<and>
         funcMap c1 = Some [''f'' \<mapsto> Custom 0, ''g'' \<mapsto> Custom 1])"
  using AddCustomFn_error_iff_present
    [of "\<lparr>funcMap = Some [''f'' \<mapsto> Custom (0::nat)], funcHelp = []\<rparr>" 1 "''f''" "''h''"]
    AddCustomFn_error_iff_present
    [of "\<lparr>funcMap = Some [''f'' \<mapsto> Custom (0::nat)], funcHelp = []\<rparr>" 1 "''g''" "''''"]
  by (auto simp: AddCustomFn_def)

section \<open>The option functions and the package's tables\<close>

lemmas Opt_defs = OptFilter_def OptFilterContains_def OptFilterHasPrefix_def OptFilterHasSuffix_def OptFilterFolded_def OptFilterRegexp_def OptToJSON_def OptToCSV_def OptSelect_def OptSelectAlt_def OptTable_def OptTableAlt_def OptTableX_def OptTableXAlt_def OptHTable_def OptHTableAlt_def OptHTableX_def OptHTableXAlt_def OptCols_def OptSort_def OptRows_def OptHead_def OptTail_def OptDescribe_def OptPromote_def OptSliceof_def OptToTable_def

lemmas index_defs = helpFilterIndex_def helpFilterContainsIndex_def helpFilterHasPrefixIndex_def
  helpFilterHasSuffixIndex_def helpFilterFoldedIndex_def helpFilterRegexpIndex_def
  helpToJSONIndex_def helpToCSVIndex_def helpSelectIndex_def helpSelectAltIndex_def
  helpTableIndex_def helpTableAltIndex_def helpTableXIndex_def helpTableXAltIndex_def
  helpHTableIndex_def helpHTableAltIndex_def helpHTableXIndex_def helpHTableXAltIndex_def
  helpColsIndex_def helpSortIndex_def helpRowsIndex_def helpHeadIndex_def helpTailIndex_def
  helpDescribeIndex_def helpPromoteIndex_def helpSliceofIndex_def helpToTableIndex_def

lemma Opt_enable:
  "OptFilter = (\<lambda>c. enableFn c ''filter'' (Pkg ''filterByField'') helpFilter helpFilterIndex)"
  "OptFilterContains = (\<lambda>c. enableFn c ''filterContains'' (Pkg ''filterByContains'') helpFilterContains helpFilterContainsIndex)"
  "OptFilterHasPrefix = (\<lambda>c. enableFn c ''filterHasPrefix'' (Pkg ''filterByHasPrefix'') helpFilterHasPrefix helpFilterHasPrefixIndex)"
  "OptFilterHasSuffix = (\<lambda>c. enableFn c ''filterHasSuffix'' (Pkg ''filterByHasSuffix'') helpFilterHasSuffix helpFilterHasSuffixIndex)"
  "OptFilterFolded = (\<lambda>c. enableFn c ''filterFolded'' (Pkg ''filterByFolded'') helpFilterFolded helpFilterFoldedIndex)"
  "OptFilterRegexp = (\<lambda>c. enableFn c ''filterRegexp'' (Pkg ''filterByRegexp'') helpFilterRegexp helpFilterRegexpIndex)"
  "OptToJSON = (\<lambda>c. enableFn c ''tojson'' (Pkg ''toJSON'') helpToJSON helpToJSONIndex)"
  "OptToCSV = (\<lambda>c. enableFn c ''tocsv'' (Pkg ''toCSV'') helpToCSV helpToCSVIndex)"
  "OptSelect = (\<lambda>c. enableFn c ''select'' (Pkg ''selectField'') helpSelect helpSelectIndex)"
  "OptSelectAlt = (\<lambda>c. enableFn c ''selectalt'' (Pkg ''selectFieldAlt'') helpSelectAlt helpSelectAltIndex)"
  "OptTable = (\<lambda>c. enableFn c ''table'' (Pkg ''table'') helpTable helpTableIndex)"
  "OptTableAlt = (\<lambda>c. enableFn c ''tablealt'' (Pkg ''tableAlt'') helpTableAlt helpTableAltIndex)"
  "OptTableX = (\<lambda>c. enableFn c ''tablex'' (Pkg ''tablex'') helpTableX helpTableXIndex)"
  "OptTableXAlt = (\<lambda>c. enableFn c ''tablexalt'' (Pkg ''tablexAlt'') helpTableXAlt helpTableXAltIndex)"
  "OptHTable = (\<lambda>c. enableFn c ''htable'' (Pkg ''htable'') helpHTable helpHTableIndex)"
  "OptHTableAlt = (\<lambda>c. enableFn c ''htablealt'' (Pkg ''htableAlt'') helpHTableAlt helpHTableAltIndex)"
  "OptHTableX = (\<lambda>c. enableFn c ''htablex'' (Pkg ''htablex'') helpHTableX helpHTableXIndex)"
  "OptHTableXAlt = (\<lambda>c. enableFn c ''htablexalt'' (Pkg ''htablexAlt'') helpHTableXAlt helpHTableXAltIndex)"
  "OptCols = (\<lambda>c. enableFn c ''cols'' (Pkg ''cols'') helpCols helpColsIndex)"
  "OptSort = (\<lambda>c. enableFn c ''sort'' (Pkg ''sortSlice'') helpSort helpSortIndex)"
  "OptRows = (\<lambda>c. enableFn c ''rows'' (Pkg ''rows'') helpRows helpRowsIndex)"
  "OptHead = (\<lambda>c. enableFn c ''head'' (Pkg ''head'') helpHead helpHeadIndex)"
  "OptTail = (\<lambda>c. enableFn c ''tail'' (Pkg ''tail'') helpTail helpTailIndex)"
  "OptDescribe = (\<lambda>c. enableFn c ''describe'' (Pkg ''describe'') helpDescribe helpDescribeIndex)"
  "OptPromote = (\<lambda>c. enableFn c ''promote'' (Pkg ''promote'') helpPromote helpPromoteIndex)"
  "OptSliceof = (\<lambda>c. enableFn c ''sliceof'' (Pkg ''sliceof'') helpSliceof helpSliceofIndex)"
  "OptToTable = (\<lambda>c. enableFn c ''totable'' (Pkg ''toTable'') helpToTable helpToTableIndex)"
  by (simp_all add: fun_eq_iff Opt_defs enableFn_def)

lemma singleOpts_eq:
  "singleOpts = map (\<lambda>h. (name h, \<lambda>c. enableFn c (name h) (the (pkgFuncMap (name h))) (help' h) (index h))) funcHelpSlice"
  by (simp add: singleOpts_def funcHelpSlice_def Opt_enable pkgFuncMap_def)

lemma dom_pkgFuncMap: "dom (pkgFuncMap :: string \<rightharpoonup> 'f fnval) = name ` set funcHelpSlice"
  by (simp add: pkgFuncMap_def funcHelpSlice_def dom_map_of_conv_image_fst)

lemma index_funcHelpSlice: "map index funcHelpSlice = map int [0..<27]"
  by (simp add: funcHelpSlice_def index_defs upt_rec)

lemma distinct_names_funcHelpSlice: "distinct (map name funcHelpSlice)"
  by (simp add: funcHelpSlice_def)

lemma sorted_index_funcHelpSlice: "sorted (map index funcHelpSlice)"
  unfolding index_funcHelpSlice by (simp add: sorted_map strict_mono_on_def sorted_wrt_iff_nth_less)

lemma distinct_index_funcHelpSlice: "distinct (map index funcHelpSlice)"
  unfolding index_funcHelpSlice by (simp add: distinct_map inj_on_def)

lemma singleOpts_enable:
  assumes "(nm, f) \<in> set singleOpts"
  obtains h where "h \<in> set funcHelpSlice" and "nm = name h"
    and "f = (\<lambda>c. enableFn c nm (the (pkgFuncMap nm)) (help' h) (index h))"
  using assms unfolding singleOpts_eq by auto

lemma enableFn_present: "mapHas (funcMap c) nm \<Longrightarrow> enableFn c nm fn h i = Inr c"
  by (simp add: enableFn_def)

lemma enableFn_enabledBy:
  assumes J: "enabledBy c S" and h: "h \<in> set funcHelpSlice"
  shows "\<exists>c1. enableFn c (name h) (the (pkgFuncMap (name h))) (help' h) (index h) = Inr c1 \<and>
           enabledBy c1 (insert (name h) S)"
proof (cases "name h \<in> S")
  case True
  have "name h \<in> dom (pkgFuncMap :: string \<rightharpoonup> 'a fnval)"
    using h by (simp add: dom_pkgFuncMap)
  with True J have "mapHas (funcMap c) (name h)"
    by (auto simp: enabledBy_def)
  moreover have "insert (name h) S = S" using True by auto
  ultimately show ?thesis using J by (simp add: enableFn_present)
next
  case False
  have dom: "name h \<in> dom (pkgFuncMap :: string \<rightharpoonup> 'a fnval)"
    using h by (simp add: dom_pkgFuncMap)
  have fm: "funcMap c = Some (pkgFuncMap |` S)" using J by (simp add: enabledBy_def)
  have eta: "\<lparr>name = name h, help' = help' h, index = index h\<rparr> = h" by simp
  have uniq: "\<And>g. g \<in> set funcHelpSlice \<Longrightarrow> name g = name h \<Longrightarrow> g = h"
    using distinct_names_funcHelpSlice h by (meson distinct_map inj_onD)
  have upd: "(pkgFuncMap |` S)(name h \<mapsto> the (pkgFuncMap (name h))) =
      (pkgFuncMap |` insert (name h) S :: string \<rightharpoonup> 'a fnval)"
    using dom by (auto simp: fun_eq_iff restrict_map_def)
  have "enableFn c (name h) (the (pkgFuncMap (name h))) (help' h) (index h) =
      Inr (c\<lparr>funcMap := Some (pkgFuncMap |` insert (name h) S), funcHelp := funcHelp c @ [h]\<rparr>)"
    using False fm by (simp add: enableFn_def eta upd)
  moreover have "enabledBy (c\<lparr>funcMap := Some (pkgFuncMap |` insert (name h) S),
      funcHelp := funcHelp c @ [h]\<rparr>) (insert (name h) S)"
    using J False h uniq by (auto simp: enabledBy_def)
  ultimately show ?thesis by simp
qed

lemma singleOpts_enabledBy:
  assumes "(nm, f) \<in> set singleOpts" and "enabledBy c S"
  shows "\<exists>c1. f c = Inr c1 \<and> enabledBy c1 (insert nm S)"
proof -
  from assms(1) obtain h where h: "h \<in> set funcHelpSlice" "nm = name h"
    "f = (\<lambda>c. enableFn c nm (the (pkgFuncMap nm)) (help' h) (index h))"
    by (rule singleOpts_enable)
  show ?thesis using enableFn_enabledBy[OF assms(2) h(1)] h(2,3) by simp
qed

lemma OptAllFns_enabledBy: "\<exists>c1. OptAllFns c = Inr c1 \<and> enabledBy c1 (name ` set funcHelpSlice)"
proof -
  have "\<And>x. x \<notin> name ` set funcHelpSlice \<Longrightarrow> (pkgFuncMap x :: 'a fnval option) = None"
    using dom_pkgFuncMap[where ?'f = 'a] by blast
  then have "pkgFuncMap |` (name ` set funcHelpSlice) = (pkgFuncMap :: string \<rightharpoonup> 'a fnval)"
    by (auto simp: fun_eq_iff restrict_map_def)
  moreover have "distinct funcHelpSlice"
    using distinct_names_funcHelpSlice by (simp add: distinct_map)
  ultimately show ?thesis
    by (auto simp: OptAllFns_def enabledBy_def)
qed

lemma OptAllFilters_enabledBy:
  assumes "enabledBy c S"
  shows "\<exists>c1. OptAllFilters c = Inr c1 \<and>
    enabledBy c1 (S \<union> {''filter'', ''filterContains'', ''filterHasPrefix'', ''filterHasSuffix'',
       ''filterFolded'', ''filterRegexp''})"
proof -
  have m: "(''filter'', OptFilter) \<in> set singleOpts"
    "(''filterContains'', OptFilterContains) \<in> set singleOpts"
    "(''filterHasPrefix'', OptFilterHasPrefix) \<in> set singleOpts"
    "(''filterHasSuffix'', OptFilterHasSuffix) \<in> set singleOpts"
    "(''filterFolded'', OptFilterFolded) \<in> set singleOpts"
    "(''filterRegexp'', OptFilterRegexp) \<in> set singleOpts"
    by (simp_all add: singleOpts_def)
  obtain c1 where 1: "OptFilter c = Inr c1" "enabledBy c1 (insert ''filter'' S)"
    using singleOpts_enabledBy[OF m(1) assms] by blast
  obtain c2 where 2: "OptFilterContains c1 = Inr c2"
      "enabledBy c2 (insert ''filterContains'' (insert ''filter'' S))"
    using singleOpts_enabledBy[OF m(2) 1(2)] by blast
  obtain c3 where 3: "OptFilterHasPrefix c2 = Inr c3"
      "enabledBy c3 (insert ''filterHasPrefix'' (insert ''filterContains'' (insert ''filter'' S)))"
    using singleOpts_enabledBy[OF m(3) 2(2)] by blast
  obtain c4 where 4: "OptFilterHasSuffix c3 = Inr c4"
      "enabledBy c4 (insert ''filterHasSuffix'' (insert ''filterHasPrefix''
         (insert ''filterContains'' (insert ''filter'' S))))"
    using singleOpts_enabledBy[OF m(4) 3(2)] by blast
  obtain c5 where 5: "OptFilterFolded c4 = Inr c5"
      "enabledBy c5 (insert ''filterFolded'' (insert ''filterHasSuffix'' (insert ''filterHasPrefix''
         (insert ''filterContains'' (insert ''filter'' S)))))"
    using singleOpts_enabledBy[OF m(5) 4(2)] by blast
  obtain c6 where 6: "OptFilterRegexp c5 = Inr c6"
      "enabledBy c6 (insert ''filterRegexp'' (insert ''filterFolded'' (insert ''filterHasSuffix''
         (insert ''filterHasPrefix'' (insert ''filterContains'' (insert ''filter'' S))))))"
    using singleOpts_enabledBy[OF m(6) 5(2)] by blast
  have "insert ''filterRegexp'' (insert ''filterFolded'' (insert ''filterHasSuffix''
         (insert ''filterHasPrefix'' (insert ''filterContains'' (insert ''filter'' S))))) =
       S \<union> {''filter'', ''filterContains'', ''filterHasPrefix'', ''filterHasSuffix'',
       ''filterFolded'', ''filterRegexp''}"
    by (simp add: insert_commute)
  with 6 have "enabledBy c6 (S \<union> {''filter'', ''filterContains'', ''filterHasPrefix'',
       ''filterHasSuffix'', ''filterFolded'', ''filterRegexp''})"
    by simp
  moreover have "OptAllFilters c = Inr c6"
    by (simp add: OptAllFilters_def 1(1) 2(1) 3(1) 4(1) 5(1) 6(1))
  ultimately show ?thesis by blast
qed

lemma pkgOptions_enabledBy:
  assumes "(ns, f) \<in> set pkgOptions" and J: "enabledBy c S"
  shows "\<exists>c1. f c = Inr c1 \<and> enabledBy c1 (S \<union> set ns)"
proof -
  consider "ns = map name funcHelpSlice" "f = OptAllFns"
    | "ns = filterNames" "f = OptAllFilters"
    | nm where "ns = [nm]" "(nm, f) \<in> set singleOpts"
    using assms(1) by (auto simp: pkgOptions_def)
  then show ?thesis
  proof cases
    case 1
    have "S \<union> set ns = name ` set funcHelpSlice"
      using J 1 by (auto simp: enabledBy_def)
    then show ?thesis using OptAllFns_enabledBy[of c] 1 by simp
  next
    case 2
    then show ?thesis using OptAllFilters_enabledBy[OF J] by (simp add: filterNames_def)
  next
    case 3
    then show ?thesis using singleOpts_enabledBy[OF 3(2) J] by simp
  qed
qed

lemma applyOptions_enabledBy:
  assumes "set os \<subseteq> set pkgOptions" and "enabledBy c S"
  shows "\<exists>c1. applyOptions (map snd os) c = Inr c1 \<and>
           enabledBy c1 (S \<union> set (concat (map fst os)))"
  using assms
proof (induction os arbitrary: c S)
  case Nil
  then show ?case by simp
next
  case (Cons a os)
  obtain ns f where a: "a = (ns, f)" by (cases a)
  with Cons.prems obtain c1 where 1: "f c = Inr c1" "enabledBy c1 (S \<union> set ns)"
    using pkgOptions_enabledBy[of ns f c S] by auto
  from Cons.IH[OF _ 1(2)] Cons.prems(1)
  obtain c2 where "applyOptions (map snd os) c1 = Inr c2"
     "enabledBy c2 (S \<union> set ns \<union> set (concat (map fst os)))" by auto
  then show ?case using a 1 by (simp add: Un_assoc)
qed

lemma sorted_index_unique:
  assumes "sorted (map index xs)" and "distinct (map index xs)"
    and "mset ys = mset xs" and "sorted (map index ys)"
  shows "ys = xs"
proof -
  have s: "set ys = set xs" using assms(3) by (rule mset_eq_setD)
  have "mset (map index ys) = mset (map index xs)" using assms(3) by simp
  then have d: "distinct (map index ys)"
    using assms(2) by (metis mset_eq_imp_distinct_iff)
  have "set (map index ys) = set (map index xs)" using s by simp
  then have "map index ys = map index xs"
    using assms(1,2,4) d by (metis sorted_distinct_set_unique)
  moreover have "inj_on index (set ys \<union> set xs)"
    using assms(2) s by (simp add: distinct_map)
  ultimately show ?thesis by (rule map_inj_on)
qed

lemma sort_key_sortsByLess: "sortsByLess (sort_key index)"
  by (simp add: sortsByLess_def)

lemma enabledBy_sort:
  assumes "sortsByLess sortSort" and "enabledBy c S"
  shows "sortSort (funcHelp c) = filter (\<lambda>h. name h \<in> S) funcHelpSlice"
proof (rule sorted_index_unique)
  show "sorted (map index (filter (\<lambda>h. name h \<in> S) funcHelpSlice))"
    using sorted_index_funcHelpSlice by (rule sorted_filter)
  show "distinct (map index (filter (\<lambda>h. name h \<in> S) funcHelpSlice))"
    using distinct_index_funcHelpSlice by (rule distinct_map_filter)
  have "distinct funcHelpSlice"
    using distinct_names_funcHelpSlice by (simp add: distinct_map)
  then have "distinct (filter (\<lambda>h. name h \<in> S) funcHelpSlice)"
    by simp
  moreover have "distinct (funcHelp c)"
    and "set (funcHelp c) = set (filter (\<lambda>h. name h \<in> S) funcHelpSlice)"
    using assms(2) by (auto simp: enabledBy_def)
  ultimately have "mset (funcHelp c) = mset (filter (\<lambda>h. name h \<in> S) funcHelpSlice)"
    by (simp only: set_eq_iff_mset_eq_distinct)
  moreover have "mset (sortSort (funcHelp c)) = mset (funcHelp c)"
    using assms(1) by (simp add: sortsByLess_def)
  ultimately show "mset (sortSort (funcHelp c)) = mset (filter (\<lambda>h. name h \<in> S) funcHelpSlice)"
    by simp
  show "sorted (map index (sortSort (funcHelp c)))"
    using assms(1) by (simp add: sortsByLess_def)
qed

lemma AddCustomFn_step:
  assumes "funcMap c = Some t"
  shows "\<exists>e c1. AddCustomFn c fn nm helpText = Inr (e, c1) \<and>
     funcMap c1 = Some (if nm \<in> dom t then t else t(nm \<mapsto> Custom fn)) \<and>
     funcHelp c1 = funcHelp c @ customHelp (dom t) [(fn, nm, helpText)]"
  using assms by (auto simp: AddCustomFn_def Let_def customEntry_def)

lemma customHelp_Cons:
  "customHelp K (call # calls) =
     customHelp K [call] @ customHelp (insert (fst (snd call)) K) calls"
  by (cases call) (auto simp: insert_absorb)

lemma addCustomFns_help:
  assumes "funcMap c = Some t"
  shows "\<exists>c2 t2. addCustomFns c calls = Inr c2 \<and> funcMap c2 = Some t2 \<and>
     funcHelp c2 = funcHelp c @ customHelp (dom t) calls"
  using assms
proof (induction calls arbitrary: c t)
  case Nil
  then show ?case by simp
next
  case (Cons a calls)
  obtain fn nm h where a: "a = (fn, nm, h)" by (cases a)
  let ?t1 = "if nm \<in> dom t then t else t(nm \<mapsto> Custom fn)"
  obtain e c1 where 1: "AddCustomFn c fn nm h = Inr (e, c1)" "funcMap c1 = Some ?t1"
    "funcHelp c1 = funcHelp c @ customHelp (dom t) [(fn, nm, h)]"
    using AddCustomFn_step[OF Cons.prems] by blast
  obtain c2 t2 where 2: "addCustomFns c1 calls = Inr c2" "funcMap c2 = Some t2"
    "funcHelp c2 = funcHelp c1 @ customHelp (dom ?t1) calls"
    using Cons.IH[OF 1(2)] by blast
  have d: "dom ?t1 = insert nm (dom t)"
    by auto
  have "customHelp (dom t) (a # calls) =
      customHelp (dom t) [(fn, nm, h)] @ customHelp (insert nm (dom t)) calls"
    unfolding a by (subst customHelp_Cons) simp
  then have "funcHelp c2 = funcHelp c @ customHelp (dom t) (a # calls)"
    using 1(3) 2(3) d by simp
  moreover have "addCustomFns c (a # calls) = Inr c2"
    using a 1(1) 2(1) by simp
  ultimately show ?case using 2(2) by blast
qed

lemma customHelp_index: "h \<in> set (customHelp K calls) \<Longrightarrow> index h = helpIndexCount"
  by (induction K calls rule: customHelp.induct) (auto simp: customEntry_def split: if_splits)

section \<open>The option functions are idempotent\<close>

lemma enableFn_keys:
  assumes "enableFn c nm fn h i = Inr c1"
  shows "mapHas (funcMap c1) nm \<and> (\<forall>k. mapHas (funcMap c) k \<longrightarrow> mapHas (funcMap c1) k)"
  using assms by (cases "funcMap c") (auto simp: enableFn_def split: if_splits)

lemma enableFn_helpNamesOk:
  assumes "helpNamesOk c" and "enableFn c nm fn h i = Inr c1"
  shows "helpNamesOk c1"
proof (cases "funcMap c")
  case None
  then show ?thesis using assms(2) by (simp add: enableFn_def)
next
  case (Some t)
  show ?thesis
  proof (cases "nm \<in> dom t")
    case True
    then show ?thesis using assms Some by (simp add: enableFn_def)
  next
    case False
    have names: "\<And>g. g \<in> set (funcHelp c) \<Longrightarrow> name g \<in> dom t"
      using assms(1) Some by (auto simp: helpNamesOk_def list_all_iff)
    then have "nm \<notin> name ` set (funcHelp c)" using False by auto
    moreover have "c1 = c\<lparr>funcMap := Some (t(nm \<mapsto> fn)),
        funcHelp := funcHelp c @ [\<lparr>name = nm, help' = h, index = i\<rparr>]\<rparr>"
      using assms(2) Some False by (simp add: enableFn_def)
    ultimately show ?thesis
      using assms(1) names by (auto simp: helpNamesOk_def list_all_iff)
  qed
qed

lemma applyOptions_preserves:
  assumes "\<forall>f \<in> set fs. \<forall>c c1. P c \<longrightarrow> f c = Inr c1 \<longrightarrow> P c1"
    and "P c" and "applyOptions fs c = Inr c1"
  shows "P c1"
  using assms
proof (induction fs arbitrary: c)
  case Nil
  then show ?case by simp
next
  case (Cons f fs)
  from Cons.prems(3) obtain c2 where 2: "f c = Inr c2" "applyOptions fs c2 = Inr c1"
    by (auto split: sum.splits)
  have "f \<in> set (f # fs)" by simp
  with Cons.prems(1) have imp: "P c \<longrightarrow> f c = Inr c2 \<longrightarrow> P c2"
    by (elim ballE allE) (assumption, simp)
  have c2: "P c2" by (rule mp[OF mp[OF imp Cons.prems(2)] 2(1)])
  have "set fs \<subseteq> set (f # fs)" by auto
  with Cons.prems(1) have rest: "\<forall>f \<in> set fs. \<forall>c c1. P c \<longrightarrow> f c = Inr c1 \<longrightarrow> P c1"
    by (meson subsetD)
  show ?case by (rule Cons.IH[OF rest c2 2(2)])
qed

lemma OptAllFns_helpNamesOk: "OptAllFns c = Inr c1 \<Longrightarrow> helpNamesOk c1"
  using distinct_names_funcHelpSlice dom_pkgFuncMap[where ?'f = 'a]
  by (auto simp: OptAllFns_def helpNamesOk_def list_all_iff)

lemma filterOpts_singleOpts:
  "(''filter'', OptFilter) \<in> set singleOpts"
  "(''filterContains'', OptFilterContains) \<in> set singleOpts"
  "(''filterHasPrefix'', OptFilterHasPrefix) \<in> set singleOpts"
  "(''filterHasSuffix'', OptFilterHasSuffix) \<in> set singleOpts"
  "(''filterFolded'', OptFilterFolded) \<in> set singleOpts"
  "(''filterRegexp'', OptFilterRegexp) \<in> set singleOpts"
  by (simp_all add: singleOpts_def)

lemma singleOpts_helpNamesOk:
  assumes "(nm, f) \<in> set singleOpts" and "helpNamesOk c" and "f c = Inr c1"
  shows "helpNamesOk c1"
proof -
  from assms(1) obtain h where "h \<in> set funcHelpSlice" and "nm = name h"
    and "f = (\<lambda>c. enableFn c nm (the (pkgFuncMap nm)) (help' h) (index h))"
    by (rule singleOpts_enable)
  then have "enableFn c nm (the (pkgFuncMap nm)) (help' h) (index h) = Inr c1"
    using assms(3) by simp
  with assms(2) show ?thesis by (rule enableFn_helpNamesOk)
qed

lemma singleOpts_keys:
  assumes "(nm, f) \<in> set singleOpts" and "f c = Inr c1"
  shows "mapHas (funcMap c1) nm \<and> (\<forall>k. mapHas (funcMap c) k \<longrightarrow> mapHas (funcMap c1) k)"
proof -
  from assms(1) obtain h where "h \<in> set funcHelpSlice" and "nm = name h"
    and "f = (\<lambda>c. enableFn c nm (the (pkgFuncMap nm)) (help' h) (index h))"
    by (rule singleOpts_enable)
  then have "enableFn c nm (the (pkgFuncMap nm)) (help' h) (index h) = Inr c1"
    using assms(2) by simp
  then show ?thesis by (rule enableFn_keys)
qed

lemma singleOpts_present:
  assumes "(nm, f) \<in> set singleOpts" and "mapHas (funcMap c) nm"
  shows "f c = Inr c"
proof -
  from assms(1) obtain h where "h \<in> set funcHelpSlice" and "nm = name h"
    and "f = (\<lambda>c. enableFn c nm (the (pkgFuncMap nm)) (help' h) (index h))"
    by (rule singleOpts_enable)
  then show ?thesis using assms(2) by (simp add: enableFn_present)
qed

lemma OptAllFilters_helpNamesOk:
  assumes "helpNamesOk c" and "OptAllFilters c = Inr c1"
  shows "helpNamesOk c1"
proof -
  have "\<forall>f \<in> set [OptFilter, OptFilterContains, OptFilterHasPrefix, OptFilterHasSuffix,
       OptFilterFolded, OptFilterRegexp]. \<forall>c c1 :: 'a Config.
       helpNamesOk c \<longrightarrow> f c = Inr c1 \<longrightarrow> helpNamesOk c1"
    using filterOpts_singleOpts singleOpts_helpNamesOk by auto
  then show ?thesis
    using assms(1) assms(2)[unfolded OptAllFilters_def] by (rule applyOptions_preserves)
qed

lemma OptAllFilters_present:
  assumes "list_all (mapHas (funcMap c)) filterNames"
  shows "OptAllFilters c = Inr c"
proof -
  have "OptFilter c = Inr c" "OptFilterContains c = Inr c" "OptFilterHasPrefix c = Inr c"
    "OptFilterHasSuffix c = Inr c" "OptFilterFolded c = Inr c" "OptFilterRegexp c = Inr c"
    using assms filterOpts_singleOpts[THEN singleOpts_present, of c]
    by (simp_all add: filterNames_def)
  then show ?thesis by (simp add: OptAllFilters_def)
qed

lemma applyOptions_singleOpts_keys:
  assumes "set nfs \<subseteq> set singleOpts" and "applyOptions (map snd nfs) c = Inr c1"
  shows "list_all (mapHas (funcMap c1)) (map fst nfs) \<and>
         (\<forall>k. mapHas (funcMap c) k \<longrightarrow> mapHas (funcMap c1) k)"
  using assms
proof (induction nfs arbitrary: c)
  case Nil
  then show ?case by simp
next
  case (Cons a nfs)
  obtain nm f where a: "a = (nm, f)" by (cases a)
  from Cons.prems(2) a obtain c2 where 2: "f c = Inr c2" "applyOptions (map snd nfs) c2 = Inr c1"
    by (auto split: sum.splits)
  have "(nm, f) \<in> set singleOpts" using Cons.prems(1) a by simp
  then have k: "mapHas (funcMap c2) nm" "\<forall>k. mapHas (funcMap c) k \<longrightarrow> mapHas (funcMap c2) k"
    using singleOpts_keys 2(1) by blast+
  have "list_all (mapHas (funcMap c1)) (map fst nfs)"
    and m: "\<forall>k. mapHas (funcMap c2) k \<longrightarrow> mapHas (funcMap c1) k"
    using Cons.IH[of c2] Cons.prems(1) 2(2) by simp_all
  then show ?case using k a by simp
qed

lemma OptAllFilters_keys:
  assumes "OptAllFilters c = Inr c1"
  shows "list_all (mapHas (funcMap c1)) filterNames"
proof -
  let ?nfs = "[(''filter'', OptFilter), (''filterContains'', OptFilterContains),
        (''filterHasPrefix'', OptFilterHasPrefix), (''filterHasSuffix'', OptFilterHasSuffix),
        (''filterFolded'', OptFilterFolded), (''filterRegexp'', OptFilterRegexp)]
        :: (string \<times> ('a Config \<Rightarrow> panic + 'a Config)) list"
  have sub: "set ?nfs \<subseteq> set singleOpts"
    using filterOpts_singleOpts by simp
  have app: "applyOptions (map snd ?nfs) c = Inr c1"
    using assms by (simp only: OptAllFilters_def list.map snd_conv)
  have "list_all (mapHas (funcMap c1)) (map fst ?nfs)"
    by (rule applyOptions_singleOpts_keys[OF sub app, THEN conjunct1])
  then show ?thesis by (simp only: filterNames_def list.map fst_conv)
qed

lemma pkgOptions_cases:
  assumes "(ns, f) \<in> set pkgOptions"
  obtains "ns = map name funcHelpSlice" "f = OptAllFns"
    | "ns = filterNames" "f = OptAllFilters"
    | nm where "ns = [nm]" "(nm, f) \<in> set singleOpts"
  using assms by (auto simp: pkgOptions_def filterNames_def)

lemma pkgOptions_helpNamesOk:
  assumes "(ns, f) \<in> set pkgOptions" and "helpNamesOk c" and "f c = Inr c1"
  shows "helpNamesOk c1"
  using assms(1)
proof (cases rule: pkgOptions_cases)
  case 1
  then show ?thesis using assms(3) OptAllFns_helpNamesOk by blast
next
  case 2
  then show ?thesis using assms(2,3) OptAllFilters_helpNamesOk by blast
next
  case (3 nm)
  then show ?thesis using assms(2,3) singleOpts_helpNamesOk by blast
qed

lemma pkgOptions_twice:
  assumes "(ns, f) \<in> set pkgOptions" and "f c = Inr c1"
  shows "f c1 = Inr c1"
  using assms(1)
proof (cases rule: pkgOptions_cases)
  case 1
  then show ?thesis using assms(2) by (auto simp: OptAllFns_def)
next
  case 2
  then show ?thesis using assms(2) OptAllFilters_keys OptAllFilters_present by blast
next
  case (3 nm)
  then show ?thesis using assms(2) singleOpts_keys singleOpts_present by blast
qed

lemma NewConfig_helpNamesOk:
  assumes "sortsByLess sortSort" and "set os \<subseteq> set pkgOptions"
    and "NewConfig sortSort (map snd os) = Inr c1"
  shows "helpNamesOk c1"
proof -
  let ?init = "\<lparr>funcMap = Some Map.empty, funcHelp = []\<rparr> :: 'a Config"
  obtain c where c: "applyOptions (map snd os) ?init = Inr c"
    and c1: "c1 = c\<lparr>funcHelp := sortSort (funcHelp c)\<rparr>"
    using assms(3) by (auto simp: NewConfig_def split: sum.splits)
  have "\<forall>f \<in> set (map snd os). \<forall>c c1. helpNamesOk c \<longrightarrow> f c = Inr c1 \<longrightarrow> helpNamesOk c1"
    using assms(2) pkgOptions_helpNamesOk by fastforce
  moreover have "helpNamesOk ?init" by (simp add: helpNamesOk_def)
  ultimately have ok: "helpNamesOk c"
    using c by (rule applyOptions_preserves)
  have m: "mset (sortSort (funcHelp c)) = mset (funcHelp c)"
    using assms(1) by (simp add: sortsByLess_def)
  then have "mset (map name (sortSort (funcHelp c))) = mset (map name (funcHelp c))"
    by (metis mset_map)
  then have "distinct (map name (sortSort (funcHelp c))) = distinct (map name (funcHelp c))"
    by (rule mset_eq_imp_distinct_iff)
  moreover have "set (sortSort (funcHelp c)) = set (funcHelp c)"
    using m by (rule mset_eq_setD)
  ultimately show ?thesis
    using ok unfolding c1 by (simp add: helpNamesOk_def list_all_iff)
qed

text \<open>
  C8. An \<open>Opt\<close> function that enables one operation returns the Config as it is when the
  operation's name is already a key of the function map: neither the function map nor the
  help list changes. \<open>OptAllFilters\<close> does so when the six filter names are present. Every
  option function of the package, applied a second time, changes nothing. Hence the option
  functions keep the names of the help list distinct, and the help list of a Config that
  \<open>NewConfig\<close> builds from them holds no name twice, whatever sorting function \<open>sort.Sort\<close>
  is. (\<open>OptAllFns\<close> names no single operation: it replaces both fields by the package's tables
  whatever the Config holds.)
\<close>

theorem Opt_idempotent:
  "(\<forall>nm f. (nm, f) \<in> set singleOpts \<longrightarrow> mapHas (funcMap c) nm \<longrightarrow> f c = Inr c) \<and>
   (list_all (mapHas (funcMap c)) filterNames \<longrightarrow> OptAllFilters c = Inr c) \<and>
   (\<forall>ns f c1. (ns, f) \<in> set pkgOptions \<longrightarrow> f c = Inr c1 \<longrightarrow> f c1 = Inr c1) \<and>
   (\<forall>ns f c1. (ns, f) \<in> set pkgOptions \<longrightarrow> helpNamesOk c \<longrightarrow> f c = Inr c1 \<longrightarrow> helpNamesOk c1) \<and>
   (\<forall>sortSort os c1. sortsByLess sortSort \<longrightarrow> set os \<subseteq> set pkgOptions \<longrightarrow>
      NewConfig sortSort (map snd os) = Inr c1 \<longrightarrow> helpNamesOk c1)"
proof (intro conjI allI impI)
  fix nm and f :: "'a Config \<Rightarrow> panic + 'a Config"
  assume "(nm, f) \<in> set singleOpts" and "mapHas (funcMap c) nm"
  then show "f c = Inr c" by (rule singleOpts_present)
next
  assume "list_all (mapHas (funcMap c)) filterNames"
  then show "OptAllFilters c = Inr c" by (rule OptAllFilters_present)
next
  fix ns and f :: "'a Config \<Rightarrow> panic + 'a Config" and c1
  assume "(ns, f) \<in> set pkgOptions" and "f c = Inr c1"
  then show "f c1 = Inr c1" by (rule pkgOptions_twice)
next
  fix ns and f :: "'a Config \<Rightarrow> panic + 'a Config" and c1
  assume "(ns, f) \<in> set pkgOptions" and "helpNamesOk c" and "f c = Inr c1"
  then show "helpNamesOk c1" by (rule pkgOptions_helpNamesOk)
next
  fix sortSort os and c1 :: "'b Config"
  assume "sortsByLess sortSort" and "set os \<subseteq> set pkgOptions"
    and "NewConfig sortSort (map snd os) = Inr c1"
  then show "helpNamesOk c1" by (rule NewConfig_helpNamesOk)
qed

theorem Opt_idempotent_witness:
  "(''head'', OptHead :: nat Config \<Rightarrow> panic + nat Config) \<in> set singleOpts \<and>
   mapHas (funcMap \<lparr>funcMap = Some [''head'' \<mapsto> (Pkg ''head'' :: nat fnval)],
      funcHelp = [\<lparr>name = ''head'', help' = helpHead, index = helpHeadIndex\<rparr>]\<rparr>) ''head'' \<and>
   OptHead \<lparr>funcMap = Some [''head'' \<mapsto> (Pkg ''head'' :: nat fnval)],
      funcHelp = [\<lparr>name = ''head'', help' = helpHead, index = helpHeadIndex\<rparr>]\<rparr> =
     Inr \<lparr>funcMap = Some [''head'' \<mapsto> Pkg ''head''],
      funcHelp = [\<lparr>name = ''head'', help' = helpHead, index = helpHeadIndex\<rparr>]\<rparr> \<and>
   sortsByLess (sort_key index) \<and>
   NewConfig (sort_key index) [OptHead, OptHead] =
     Inr \<lparr>funcMap = Some [''head'' \<mapsto> (Pkg ''head'' :: nat fnval)],
      funcHelp = [\<lparr>name = ''head'', help' = helpHead, index = helpHeadIndex\<rparr>]\<rparr> \<and>
   helpNamesOk \<lparr>funcMap = Some [''head'' \<mapsto> (Pkg ''head'' :: nat fnval)],
      funcHelp = [\<lparr>name = ''head'', help' = helpHead, index = helpHeadIndex\<rparr>]\<rparr>"
proof -
  let ?c = "\<lparr>funcMap = Some [''head'' \<mapsto> (Pkg ''head'' :: nat fnval)],
      funcHelp = [\<lparr>name = ''head'', help' = helpHead, index = helpHeadIndex\<rparr>]\<rparr>"
  have m: "(''head'', OptHead) \<in> set (singleOpts :: (string \<times> (nat Config \<Rightarrow> panic + nat Config)) list)"
    by (simp add: singleOpts_def)
  have h: "mapHas (funcMap ?c) ''head''"
    by simp
  have 1: "OptHead ?c = Inr ?c"
    by (rule Opt_idempotent[of ?c, THEN conjunct1, rule_format, OF m h])
  have s: "set [([''head''], OptHead), ([''head''], OptHead)] \<subseteq>
      set (pkgOptions :: (string list \<times> (nat Config \<Rightarrow> panic + nat Config)) list)"
    using m by (auto simp: pkgOptions_def)
  have n: "NewConfig (sort_key index) (map snd [([''head''], OptHead), ([''head''], OptHead)]) = Inr ?c"
    by (simp add: NewConfig_def OptHead_def)
  have 2: "helpNamesOk ?c"
    by (rule Opt_idempotent[of ?c, THEN conjunct2, THEN conjunct2, THEN conjunct2, THEN conjunct2,
          rule_format, OF sort_key_sortsByLess s n])
  show ?thesis using m h 1 2 n sort_key_sortsByLess by simp
qed

section \<open>The help of a Config built by NewConfig\<close>

text \<open>
  C1. For every list of the package's option functions and every sorting function that
  \<open>sort.Sort\<close> may be, \<open>NewConfig\<close> returns the Config whose function map is the package's
  table restricted to the enabled names and whose help list holds the entries of the enabled
  operations in strictly increasing order of the help index constants;
  \<open>TemplateFunctionHelp\<close> is the heading followed by their usage texts in that order. The
  Config, and so the help, is the same for every list with the same option functions, in
  whatever order and however often they are passed, and for every sorting function. When
  custom functions are then added by \<open>AddCustomFn\<close>, which gives each of them the index
  \<open>helpIndexCount\<close>, the help list is the package's entries followed by exactly the entries
  that the calls record, the help list is still in ascending order of index, and the help is
  again the same for every order in which the option functions were passed.
\<close>

theorem NewConfig_canonical_help:
  assumes "sortsByLess sortSort" and "set os \<subseteq> set pkgOptions"
  shows "\<exists>c. NewConfig sortSort (map snd os) = Inr c \<and>
     funcMap c = Some (pkgFuncMap |` set (concat (map fst os))) \<and>
     funcHelp c = filter (\<lambda>h. name h \<in> set (concat (map fst os))) funcHelpSlice \<and>
     sorted_wrt (<) (map index (funcHelp c)) \<and>
     TemplateFunctionHelp (Some c) =
       ''Some new functions have been added to Go's template language\<newline>\<newline>'' @
       concat (map help' (filter (\<lambda>h. name h \<in> set (concat (map fst os))) funcHelpSlice)) \<and>
     (\<forall>sortSort' os'. sortsByLess sortSort' \<longrightarrow> set os' = set os \<longrightarrow>
        NewConfig sortSort' (map snd os') = Inr c) \<and>
     (\<forall>sortSort' os' calls. sortsByLess sortSort' \<longrightarrow> set os' = set os \<longrightarrow>
        (\<exists>c1 c2. NewConfig sortSort' (map snd os') = Inr c1 \<and>
           addCustomFns c1 calls = Inr c2 \<and>
           funcHelp c2 = filter (\<lambda>h. name h \<in> set (concat (map fst os))) funcHelpSlice @
             customHelp (set (concat (map fst os))) calls \<and>
           sorted (map index (funcHelp c2)) \<and>
           TemplateFunctionHelp (Some c2) =
             ''Some new functions have been added to Go's template language\<newline>\<newline>'' @
             concat (map help' (filter (\<lambda>h. name h \<in> set (concat (map fst os))) funcHelpSlice)) @
             concat (map help' (customHelp (set (concat (map fst os))) calls))))"
proof -
  let ?init = "\<lparr>funcMap = Some Map.empty, funcHelp = []\<rparr> :: 'a Config"
  let ?N = "set (concat (map fst os))"
  let ?pk = "filter (\<lambda>h. name h \<in> ?N) funcHelpSlice"
  let ?cfg = "\<lparr>funcMap = Some (pkgFuncMap |` ?N), funcHelp = ?pk\<rparr> :: 'a Config"
  have init: "enabledBy ?init {}"
    by (simp add: enabledBy_def)
  have canon: "NewConfig srt (map snd os') = Inr ?cfg"
    if srt: "sortsByLess srt" and eq: "set os' = set os" for srt os'
  proof -
    have sub: "set os' \<subseteq> set pkgOptions" using eq assms(2) by simp
    have N: "set (concat (map fst os')) = ?N" using eq by auto
    obtain c1 where 1: "applyOptions (map snd os') ?init = Inr c1" "enabledBy c1 ?N"
      using applyOptions_enabledBy[OF sub init] N by auto
    have "c1\<lparr>funcHelp := srt (funcHelp c1)\<rparr> = ?cfg"
      using 1(2) enabledBy_sort[OF srt 1(2)] by (simp add: enabledBy_def)
    then show ?thesis using 1(1) by (simp add: NewConfig_def)
  qed
  have Nsub: "?N \<subseteq> name ` set funcHelpSlice"
  proof -
    obtain c1 :: "'a Config" where "enabledBy c1 ({} \<union> ?N)"
      using applyOptions_enabledBy[OF assms(2) init] by blast
    then show ?thesis by (simp add: enabledBy_def)
  qed
  have domN: "dom (pkgFuncMap |` ?N :: string \<rightharpoonup> 'a fnval) = ?N"
    using Nsub dom_pkgFuncMap[where ?'f = 'a] by auto
  have strict: "sorted_wrt (<) (map index ?pk)"
    using sorted_index_funcHelpSlice distinct_index_funcHelpSlice
    by (simp add: strict_sorted_iff sorted_filter distinct_map_filter)
  have custom: "\<exists>c2. addCustomFns ?cfg calls = Inr c2 \<and>
        funcHelp c2 = ?pk @ customHelp ?N calls \<and>
        sorted (map index (funcHelp c2)) \<and>
        TemplateFunctionHelp (Some c2) =
          ''Some new functions have been added to Go's template language\<newline>\<newline>'' @
          concat (map help' ?pk) @ concat (map help' (customHelp ?N calls))" for calls
  proof -
    have "funcMap ?cfg = Some (pkgFuncMap |` ?N)" by simp
    from addCustomFns_help[OF this, of calls]
    obtain c2 where 2: "addCustomFns ?cfg calls = Inr c2"
      "funcHelp c2 = ?pk @ customHelp ?N calls"
      unfolding domN by auto
    have cs: "\<And>h. h \<in> set (customHelp ?N calls) \<Longrightarrow> index h = helpIndexCount"
      by (rule customHelp_index)
    have "\<And>h. h \<in> set funcHelpSlice \<Longrightarrow> index h \<le> helpIndexCount"
    proof -
      fix h assume "h \<in> set funcHelpSlice"
      then have "index h \<in> set (map index funcHelpSlice)" by simp
      then show "index h \<le> helpIndexCount"
        unfolding index_funcHelpSlice by (auto simp: helpIndexCount_def)
    qed
    then have le: "\<forall>x \<in> set (map index ?pk). \<forall>y \<in> set (map index (customHelp ?N calls)). x \<le> y"
      using cs by auto
    have "map index (customHelp ?N calls) = replicate (length (customHelp ?N calls)) helpIndexCount"
      using cs by (auto simp: list_eq_iff_nth_eq)
    then have s2: "sorted (map index (customHelp ?N calls))"
      by (metis sorted_replicate)
    have s1: "sorted (map index ?pk)"
      using sorted_index_funcHelpSlice by (rule sorted_filter)
    have "sorted (map index ?pk @ map index (customHelp ?N calls))"
      using s1 s2 le by (simp only: sorted_append)
    then have "sorted (map index (funcHelp c2))"
      using 2(2) by simp
    moreover have "TemplateFunctionHelp (Some c2) =
          ''Some new functions have been added to Go's template language\<newline>\<newline>'' @
          concat (map help' ?pk) @ concat (map help' (customHelp ?N calls))"
      using 2(2) by (simp add: TemplateFunctionHelp_def getHelpers_def)
    ultimately show ?thesis using 2 by blast
  qed
  have 1: "NewConfig sortSort (map snd os) = Inr ?cfg"
    using assms(1) by (rule canon) simp
  have 5: "TemplateFunctionHelp (Some ?cfg) =
       ''Some new functions have been added to Go's template language\<newline>\<newline>'' @
       concat (map help' ?pk)"
    by (simp add: TemplateFunctionHelp_def getHelpers_def)
  have 6: "\<forall>sortSort' os'. sortsByLess sortSort' \<longrightarrow> set os' = set os \<longrightarrow>
        NewConfig sortSort' (map snd os') = Inr ?cfg"
    using canon by (intro allI impI)
  have 7: "\<forall>sortSort' os' calls. sortsByLess sortSort' \<longrightarrow> set os' = set os \<longrightarrow>
        (\<exists>c1 c2. NewConfig sortSort' (map snd os') = Inr c1 \<and>
           addCustomFns c1 calls = Inr c2 \<and>
           funcHelp c2 = ?pk @ customHelp ?N calls \<and>
           sorted (map index (funcHelp c2)) \<and>
           TemplateFunctionHelp (Some c2) =
             ''Some new functions have been added to Go's template language\<newline>\<newline>'' @
             concat (map help' ?pk) @ concat (map help' (customHelp ?N calls)))"
  proof (intro allI impI)
    fix srt :: "funcHelpInfo list \<Rightarrow> funcHelpInfo list"
      and os' :: "(string list \<times> ('a Config \<Rightarrow> panic + 'a Config)) list"
      and calls :: "('a \<times> string \<times> string) list"
    assume "sortsByLess srt" and "set os' = set os"
    then have n: "NewConfig srt (map snd os') = Inr ?cfg" by (rule canon)
    from custom[of calls] obtain c2 where c2: "addCustomFns ?cfg calls = Inr c2"
        "funcHelp c2 = ?pk @ customHelp ?N calls"
        "sorted (map index (funcHelp c2))"
        "TemplateFunctionHelp (Some c2) =
          ''Some new functions have been added to Go's template language\<newline>\<newline>'' @
          concat (map help' ?pk) @ concat (map help' (customHelp ?N calls))"
      by (elim exE conjE)
    show "\<exists>c1 c2. NewConfig srt (map snd os') = Inr c1 \<and>
           addCustomFns c1 calls = Inr c2 \<and>
           funcHelp c2 = ?pk @ customHelp ?N calls \<and>
           sorted (map index (funcHelp c2)) \<and>
           TemplateFunctionHelp (Some c2) =
             ''Some new functions have been added to Go's template language\<newline>\<newline>'' @
             concat (map help' ?pk) @ concat (map help' (customHelp ?N calls))"
      by (intro exI conjI) (rule n c2(1) c2(2) c2(3) c2(4))+
  qed
  show ?thesis
    by (rule exI[of _ ?cfg]) (use 1 strict 5 6 7 in simp)
qed

theorem NewConfig_canonical_help_witness:
  "sortsByLess (sort_key index) \<and>
   set [([''head''], OptHead), ([''filter''], OptFilter)] \<subseteq>
      set (pkgOptions :: (string list \<times> (nat Config \<Rightarrow> panic + nat Config)) list) \<and>
   NewConfig (sort_key index) [OptHead, OptFilter] =
     Inr \<lparr>funcMap = Some (pkgFuncMap |` {''head'', ''filter''}) :: (string \<rightharpoonup> nat fnval) option,
      funcHelp = [\<lparr>name = ''filter'', help' = helpFilter, index = helpFilterIndex\<rparr>,
                  \<lparr>name = ''head'', help' = helpHead, index = helpHeadIndex\<rparr>]\<rparr> \<and>
   NewConfig (sort_key index) [OptFilter, OptHead] =
     Inr \<lparr>funcMap = Some (pkgFuncMap |` {''head'', ''filter''}) :: (string \<rightharpoonup> nat fnval) option,
      funcHelp = [\<lparr>name = ''filter'', help' = helpFilter, index = helpFilterIndex\<rparr>,
                  \<lparr>name = ''head'', help' = helpHead, index = helpHeadIndex\<rparr>]\<rparr> \<and>
   TemplateFunctionHelp (Some \<lparr>funcMap = Some (pkgFuncMap |` {''head'', ''filter''}) :: (string \<rightharpoonup> nat fnval) option,
      funcHelp = [\<lparr>name = ''filter'', help' = helpFilter, index = helpFilterIndex\<rparr>,
                  \<lparr>name = ''head'', help' = helpHead, index = helpHeadIndex\<rparr>]\<rparr>) =
     ''Some new functions have been added to Go's template language\<newline>\<newline>'' @ helpFilter @ helpHead \<and>
   map_sum id (\<lambda>c. TemplateFunctionHelp (Some c))
     (addCustomFns \<lparr>funcMap = Some (pkgFuncMap |` {''head'', ''filter''}) :: (string \<rightharpoonup> nat fnval) option,
        funcHelp = [\<lparr>name = ''filter'', help' = helpFilter, index = helpFilterIndex\<rparr>,
                    \<lparr>name = ''head'', help' = helpHead, index = helpHeadIndex\<rparr>]\<rparr>
        [(1, ''b'', ''B''), (2, ''head'', ''H''), (3, ''a'', ''A ''), (4, ''c'', '' '')]) =
     Inr (''Some new functions have been added to Go's template language\<newline>\<newline>'' @
          helpFilter @ helpHead @ ''B\<newline>A\<newline>'')"
proof -
  let ?os = "[([''head''], OptHead), ([''filter''], OptFilter)]
     :: (string list \<times> (nat Config \<Rightarrow> panic + nat Config)) list"
  let ?calls = "[(1, ''b'', ''B''), (2, ''head'', ''H''), (3, ''a'', ''A ''), (4, ''c'', '' '')]
     :: (nat \<times> string \<times> string) list"
  let ?cHF = "\<lparr>funcMap = Some (pkgFuncMap |` {''head'', ''filter''}) :: (string \<rightharpoonup> nat fnval) option,
      funcHelp = [\<lparr>name = ''filter'', help' = helpFilter, index = helpFilterIndex\<rparr>,
                  \<lparr>name = ''head'', help' = helpHead, index = helpHeadIndex\<rparr>]\<rparr>"
  have s: "set ?os \<subseteq> set pkgOptions"
    by (simp add: pkgOptions_def singleOpts_def)
  have f: "filter (\<lambda>h. name h \<in> set (concat (map fst ?os))) funcHelpSlice =
     [\<lparr>name = ''filter'', help' = helpFilter, index = helpFilterIndex\<rparr>,
      \<lparr>name = ''head'', help' = helpHead, index = helpHeadIndex\<rparr>]"
    by (simp add: funcHelpSlice_def)
  have t: "TrimRightSpace ''B'' = ''B''" "TrimRightSpace ''A '' = ''A''" "TrimRightSpace '' '' = ''''"
    by (simp_all add: TrimRightSpace.simps whiteSpace_def hasSuffix_def)
  have k: "customHelp (set (concat (map fst ?os))) ?calls =
     [\<lparr>name = ''b'', help' = ''B\<newline>'', index = helpIndexCount\<rparr>,
      \<lparr>name = ''a'', help' = ''A\<newline>'', index = helpIndexCount\<rparr>]"
    by (simp add: t customEntry_def)
  have e: "set (rev ?os) = set ?os" by (simp only: set_rev)
  from NewConfig_canonical_help[OF sort_key_sortsByLess s] obtain c
    where c: "NewConfig (sort_key index) (map snd ?os) = Inr c"
    "funcMap c = Some (pkgFuncMap |` set (concat (map fst ?os)))"
    "funcHelp c = filter (\<lambda>h. name h \<in> set (concat (map fst ?os))) funcHelpSlice"
    "TemplateFunctionHelp (Some c) =
       ''Some new functions have been added to Go's template language\<newline>\<newline>'' @
       concat (map help' (filter (\<lambda>h. name h \<in> set (concat (map fst ?os))) funcHelpSlice))"
    "\<forall>sortSort' os'. sortsByLess sortSort' \<longrightarrow> set os' = set ?os \<longrightarrow>
        NewConfig sortSort' (map snd os') = Inr c"
    "\<forall>sortSort' os' calls. sortsByLess sortSort' \<longrightarrow> set os' = set ?os \<longrightarrow>
        (\<exists>c1 c2. NewConfig sortSort' (map snd os') = Inr c1 \<and>
           addCustomFns c1 calls = Inr c2 \<and>
           funcHelp c2 = filter (\<lambda>h. name h \<in> set (concat (map fst ?os))) funcHelpSlice @
             customHelp (set (concat (map fst ?os))) calls \<and>
           sorted (map index (funcHelp c2)) \<and>
           TemplateFunctionHelp (Some c2) =
             ''Some new functions have been added to Go's template language\<newline>\<newline>'' @
             concat (map help' (filter (\<lambda>h. name h \<in> set (concat (map fst ?os))) funcHelpSlice)) @
             concat (map help' (customHelp (set (concat (map fst ?os))) calls)))"
    by (elim exE conjE)
  have r: "NewConfig (sort_key index) (map snd (rev ?os)) = Inr c"
    by (rule c(5)[rule_format, OF sort_key_sortsByLess e])
  have ceq: "c = ?cHF"
    using c(2,3) unfolding f by simp
  from c(6)[rule_format, OF sort_key_sortsByLess e, of ?calls]
  obtain c1 c2 where a: "NewConfig (sort_key index) (map snd (rev ?os)) = Inr c1"
    "addCustomFns c1 ?calls = Inr c2"
    "TemplateFunctionHelp (Some c2) =
       ''Some new functions have been added to Go's template language\<newline>\<newline>'' @
       concat (map help' (filter (\<lambda>h. name h \<in> set (concat (map fst ?os))) funcHelpSlice)) @
       concat (map help' (customHelp (set (concat (map fst ?os))) ?calls))"
    by blast
  have "c1 = ?cHF" using a(1) r ceq by simp
  then have h: "map_sum id (\<lambda>c. TemplateFunctionHelp (Some c)) (addCustomFns ?cHF ?calls) =
     Inr (''Some new functions have been added to Go's template language\<newline>\<newline>'' @
          helpFilter @ helpHead @ ''B\<newline>A\<newline>'')"
    using a(2,3) unfolding f k by simp
  show ?thesis
    using sort_key_sortsByLess s c(1,4) r h unfolding f ceq by simp
qed

section \<open>AddCustomFn: the help text\<close>

lemma hasSuffix_iff: "hasSuffix s w \<longleftrightarrow> suffix w s"
proof
  assume "hasSuffix s w"
  then have "s = take (length s - length w) s @ w"
    by (metis append_take_drop_id hasSuffix_def)
  then show "suffix w s" by (metis suffixI)
next
  assume "suffix w s"
  then obtain zs where "s = zs @ w" by (auto simp: suffix_def)
  then show "hasSuffix s w" by (simp add: hasSuffix_def)
qed

lemma whiteSpace_suffix_free:
  "list_all (\<lambda>w. list_all (\<lambda>w'. suffix w w' \<longrightarrow> w = w') whiteSpace) whiteSpace"
  by (simp add: whiteSpace_def suffix_to_prefix)

lemma find_unique:
  assumes "w \<in> set xs" and "P w" and "\<And>v. v \<in> set xs \<Longrightarrow> P v \<Longrightarrow> v = w"
  shows "find P xs = Some w"
proof (cases "find P xs")
  case None
  then show ?thesis using assms(1,2) by (auto simp: find_None_iff)
next
  case (Some v)
  then have "v \<in> set xs" "P v"
    by (auto simp: find_Some_iff)
  then show ?thesis using assms(3) Some by simp
qed

lemma find_whiteSpace_append:
  assumes "w \<in> set whiteSpace"
  shows "find (hasSuffix (s @ w)) whiteSpace = Some w"
proof (rule find_unique[OF assms])
  show "hasSuffix (s @ w) w" by (simp add: hasSuffix_def)
next
  fix v
  assume v: "v \<in> set whiteSpace" and "hasSuffix (s @ w) v"
  then have "suffix v (s @ w)" by (simp add: hasSuffix_iff)
  moreover have "suffix w (s @ w)" by (rule suffixI) simp
  ultimately have "suffix v w \<or> suffix w v" by (rule suffix_same_cases)
  then show "v = w"
    using whiteSpace_suffix_free v assms by (auto simp only: list_all_iff)
qed

lemma whiteSpace_nonempty: "w \<in> set whiteSpace \<Longrightarrow> w \<noteq> []"
  by (auto simp: whiteSpace_def)

lemma TrimRightSpace_Nil: "TrimRightSpace [] = []"
proof -
  have "find (hasSuffix []) whiteSpace = None"
    using whiteSpace_nonempty by (auto simp: find_None_iff hasSuffix_def)
  then show ?thesis by (simp add: TrimRightSpace.simps)
qed

lemma TrimRightSpace_append:
  assumes "w \<in> set whiteSpace"
  shows "TrimRightSpace (s @ w) = TrimRightSpace s"
  by (subst TrimRightSpace.simps) (simp add: find_whiteSpace_append[OF assms])

lemma TrimRightSpace_concat:
  assumes "set ws \<subseteq> set whiteSpace"
  shows "TrimRightSpace (s @ concat ws) = TrimRightSpace s"
  using assms
proof (induction ws rule: rev_induct)
  case Nil
  then show ?case by simp
next
  case (snoc w ws)
  have "TrimRightSpace (s @ concat (ws @ [w])) = TrimRightSpace ((s @ concat ws) @ w)"
    by simp
  also have "\<dots> = TrimRightSpace (s @ concat ws)"
    using snoc.prems by (intro TrimRightSpace_append) simp
  finally show ?case using snoc by simp
qed

lemma TrimRightSpace_split:
  "\<exists>sp. onlySpaces sp \<and> s = TrimRightSpace s @ sp"
proof (induction s rule: TrimRightSpace.induct)
  case (1 s)
  show ?case
  proof (cases "find (hasSuffix s) whiteSpace")
    case None
    then have "TrimRightSpace s = s" by (simp add: TrimRightSpace.simps)
    moreover have "onlySpaces []"
      unfolding onlySpaces_def by (rule exI[of _ "[]"]) simp
    ultimately show ?thesis by auto
  next
    case (Some w)
    then have w: "w \<in> set whiteSpace" "hasSuffix s w"
      by (auto simp: find_Some_iff)
    let ?r = "take (length s - length w) s"
    have s: "s = ?r @ w"
      using w(2) by (metis append_take_drop_id hasSuffix_def)
    have t: "TrimRightSpace s = TrimRightSpace ?r"
      using Some by (simp add: TrimRightSpace.simps)
    from "1.IH"[OF Some] obtain sp where sp: "onlySpaces sp" "?r = TrimRightSpace ?r @ sp"
      by blast
    from sp(1) obtain ws where ws: "set ws \<subseteq> set whiteSpace" "sp = concat ws"
      by (auto simp: onlySpaces_def)
    have "onlySpaces (sp @ w)"
      unfolding onlySpaces_def using ws w(1) by (intro exI[of _ "ws @ [w]"]) simp
    moreover have "s = TrimRightSpace s @ (sp @ w)"
      using s sp(2) t by (metis append.assoc)
    ultimately show ?thesis by blast
  qed
qed

lemma TrimRightSpace_fixed:
  "find (hasSuffix (TrimRightSpace s)) whiteSpace = None"
proof (induction s rule: TrimRightSpace.induct)
  case (1 s)
  show ?case
  proof (cases "find (hasSuffix s) whiteSpace")
    case None
    then show ?thesis by (simp add: TrimRightSpace.simps)
  next
    case (Some w)
    then show ?thesis using "1.IH"[OF Some] by (simp add: TrimRightSpace.simps)
  qed
qed

lemma TrimRightSpace_empty_iff: "TrimRightSpace s = [] \<longleftrightarrow> onlySpaces s"
proof
  assume "TrimRightSpace s = []"
  then show "onlySpaces s" using TrimRightSpace_split[of s] by auto
next
  assume "onlySpaces s"
  then obtain ws where "set ws \<subseteq> set whiteSpace" "s = concat ws"
    by (auto simp: onlySpaces_def)
  then show "TrimRightSpace s = []"
    using TrimRightSpace_concat[of ws "[]"] by (simp add: TrimRightSpace_Nil)
qed

lemma find_name_None:
  "nm \<notin> name ` set hs \<Longrightarrow> find (\<lambda>h. name h = nm) hs = None"
  by (auto simp: find_None_iff)

lemma find_name_append:
  "nm \<notin> name ` set hs \<Longrightarrow> find (\<lambda>h. name h = nm) (hs @ [\<lparr>name = nm, help' = t, index = i\<rparr>]) =
     Some \<lparr>name = nm, help' = t, index = i\<rparr>"
  by (induction hs) auto

lemma AddCustomFn_helpNamesOk:
  assumes "helpNamesOk c" and "AddCustomFn c fn nm helpText = Inr (e, c1)"
  shows "helpNamesOk c1"
proof (cases "funcMap c")
  case None
  then show ?thesis using assms(2) by (simp add: AddCustomFn_def)
next
  case (Some t)
  show ?thesis
  proof (cases "nm \<in> dom t")
    case True
    then show ?thesis using assms Some by (simp add: AddCustomFn_def)
  next
    case False
    have names: "\<And>g. g \<in> set (funcHelp c) \<Longrightarrow> \<exists>y. t (name g) = Some y"
      using assms(1) Some by (auto simp: helpNamesOk_def list_all_iff)
    then have "nm \<notin> name ` set (funcHelp c)" using False by auto
    then show ?thesis
      using assms Some False names
      by (auto simp: AddCustomFn_def Let_def helpNamesOk_def list_all_iff split: if_splits)
  qed
qed

text \<open>
  C9. Let the function map of the Config be not \<open>nil\<close>, the name not yet a key of it, and
  every name with a help entry a key of it (as in every Config built by \<open>NewConfig\<close>, the
  option functions and \<open>AddCustomFn\<close>). When the help text consists of white space only or is
  empty, \<open>AddCustomFn\<close> stores the function and leaves the help list as it is:
  \<open>TemplateFunctionNames\<close> does not list the name and \<open>TemplateFunctionHelpSingle\<close> returns
  the error "<name> is not defined". Otherwise the help entry appended is the help text
  without its trailing white space, which is not empty and ends with no white space rune,
  followed by one newline; the name is listed and the entry is what
  \<open>TemplateFunctionHelpSingle\<close> returns.
\<close>

theorem AddCustomFn_help_text:
  assumes "funcMap c = Some t" and "nm \<notin> dom t" and "helpNamesOk c"
  shows "(onlySpaces helpText \<longrightarrow>
            AddCustomFn c fn nm helpText = Inr (None, c\<lparr>funcMap := Some (t(nm \<mapsto> Custom fn))\<rparr>) \<and>
            nm \<notin> set (TemplateFunctionNames (Some (c\<lparr>funcMap := Some (t(nm \<mapsto> Custom fn))\<rparr>))) \<and>
            TemplateFunctionHelpSingle nm (Some (c\<lparr>funcMap := Some (t(nm \<mapsto> Custom fn))\<rparr>)) =
              ('''', Some (nm @ '' is not defined''))) \<and>
         (\<not> onlySpaces helpText \<longrightarrow>
            (\<exists>c1. AddCustomFn c fn nm helpText = Inr (None, c1) \<and>
               funcMap c1 = Some (t(nm \<mapsto> Custom fn)) \<and>
               funcHelp c1 = funcHelp c @
                 [\<lparr>name = nm, help' = TrimRightSpace helpText @ ''\<newline>'', index = helpIndexCount\<rparr>] \<and>
               TemplateFunctionNames (Some c1) = TemplateFunctionNames (Some c) @ [nm] \<and>
               TemplateFunctionHelpSingle nm (Some c1) = (TrimRightSpace helpText @ ''\<newline>'', None)) \<and>
            TrimRightSpace helpText \<noteq> '''' \<and>
            find (hasSuffix (TrimRightSpace helpText)) whiteSpace = None \<and>
            (\<exists>sp. onlySpaces sp \<and> helpText = TrimRightSpace helpText @ sp))"
proof -
  have names: "nm \<notin> name ` set (funcHelp c)"
    using assms by (auto simp: helpNamesOk_def list_all_iff)
  show ?thesis
  proof (cases "onlySpaces helpText")
    case True
    then have "TrimRightSpace helpText = []" by (simp add: TrimRightSpace_empty_iff)
    then show ?thesis
      using True assms(1,2) names
      by (simp add: AddCustomFn_def TemplateFunctionNames_def TemplateFunctionHelpSingle_def
          getHelpers_def find_name_None domIff)
  next
    case False
    then have ne: "TrimRightSpace helpText \<noteq> []" by (simp add: TrimRightSpace_empty_iff)
    let ?c1 = "c\<lparr>funcMap := Some (t(nm \<mapsto> Custom fn)), funcHelp := funcHelp c @
       [\<lparr>name = nm, help' = TrimRightSpace helpText @ ''\<newline>'', index = helpIndexCount\<rparr>]\<rparr>"
    have "AddCustomFn c fn nm helpText = Inr (None, ?c1)"
      using ne assms(1,2) by (simp add: AddCustomFn_def domIff)
    moreover have "TemplateFunctionNames (Some ?c1) = TemplateFunctionNames (Some c) @ [nm]"
      by (simp add: TemplateFunctionNames_def getHelpers_def)
    moreover have "TemplateFunctionHelpSingle nm (Some ?c1) =
        (TrimRightSpace helpText @ ''\<newline>'', None)"
      using names by (simp add: TemplateFunctionHelpSingle_def getHelpers_def find_name_append)
    ultimately have "\<exists>c1. AddCustomFn c fn nm helpText = Inr (None, c1) \<and>
               funcMap c1 = Some (t(nm \<mapsto> Custom fn)) \<and>
               funcHelp c1 = funcHelp c @
                 [\<lparr>name = nm, help' = TrimRightSpace helpText @ ''\<newline>'', index = helpIndexCount\<rparr>] \<and>
               TemplateFunctionNames (Some c1) = TemplateFunctionNames (Some c) @ [nm] \<and>
               TemplateFunctionHelpSingle nm (Some c1) = (TrimRightSpace helpText @ ''\<newline>'', None)"
      by (intro exI[of _ ?c1]) simp
    then show ?thesis
      using False ne TrimRightSpace_fixed[of helpText] TrimRightSpace_split[of helpText]
      by simp
  qed
qed

theorem AddCustomFn_help_text_witness:
  "helpNamesOk \<lparr>funcMap = Some (Map.empty :: string \<rightharpoonup> nat fnval), funcHelp = []\<rparr> \<and>
   onlySpaces '' \<newline>'' \<and>
   AddCustomFn \<lparr>funcMap = Some Map.empty, funcHelp = []\<rparr> (1::nat) ''f'' '' \<newline>'' =
     Inr (None, \<lparr>funcMap = Some [''f'' \<mapsto> Custom 1], funcHelp = []\<rparr>) \<and>
   TemplateFunctionHelpSingle ''f'' (Some \<lparr>funcMap = Some [''f'' \<mapsto> Custom (1::nat)], funcHelp = []\<rparr>) =
     ('''', Some ''f is not defined'') \<and>
   \<not> onlySpaces ''doc \<newline>'' \<and>
   AddCustomFn \<lparr>funcMap = Some Map.empty, funcHelp = []\<rparr> (1::nat) ''f'' ''doc \<newline>'' =
     Inr (None, \<lparr>funcMap = Some [''f'' \<mapsto> Custom 1],
       funcHelp = [\<lparr>name = ''f'', help' = ''doc\<newline>'', index = helpIndexCount\<rparr>]\<rparr>)"
proof -
  let ?c = "\<lparr>funcMap = Some (Map.empty :: string \<rightharpoonup> nat fnval), funcHelp = []\<rparr>"
  have m: "funcMap ?c = Some Map.empty" and d: "''f'' \<notin> dom (Map.empty :: string \<rightharpoonup> nat fnval)"
    by simp_all
  have ok: "helpNamesOk ?c"
    by (simp add: helpNamesOk_def)
  have sp: "onlySpaces '' \<newline>''"
    unfolding onlySpaces_def
    by (rule exI[of _ "[[CHR 0x20], [CHR 0x0A]]"]) (simp add: whiteSpace_def)
  have tr: "TrimRightSpace ''doc \<newline>'' = ''doc''"
    by (simp add: TrimRightSpace.simps whiteSpace_def hasSuffix_def)
  have nsp: "\<not> onlySpaces ''doc \<newline>''"
    using tr TrimRightSpace_empty_iff[of "''doc \<newline>''"] by simp
  note w1 = AddCustomFn_help_text[OF m d ok, of "'' \<newline>''" 1, THEN conjunct1, rule_format, OF sp]
  note w2 = AddCustomFn_help_text[OF m d ok, of "''doc \<newline>''" 1, THEN conjunct2, rule_format, OF nsp]
  from w2 obtain c1 where c1: "AddCustomFn ?c 1 ''f'' ''doc \<newline>'' = Inr (None, c1)"
    "funcMap c1 = Some [''f'' \<mapsto> Custom 1]"
    "funcHelp c1 = funcHelp ?c @
       [\<lparr>name = ''f'', help' = TrimRightSpace ''doc \<newline>'' @ ''\<newline>'', index = helpIndexCount\<rparr>]"
    by blast
  have "c1 = \<lparr>funcMap = Some [''f'' \<mapsto> Custom 1],
       funcHelp = [\<lparr>name = ''f'', help' = ''doc\<newline>'', index = helpIndexCount\<rparr>]\<rparr>"
    using c1(2,3) tr by simp
  then show ?thesis
    using ok sp nsp w1 c1(1) by simp
qed

section \<open>head and rows\<close>

text \<open>
  C5. When the count is omitted \<open>head\<close> behaves as with count 1. A negative count is an
  \<open>ArgumentError\<close>. For a count \<open>n\<close> that is not negative the result holds the first
  \<open>min(n, len)\<close> records of the collection, each at its place; a count greater than the
  length returns the whole collection.
\<close>

theorem head_first_elements:
  "head c None = head c (Some 1) \<and>
   (n < 0 \<longrightarrow> head c (Some n) = Inl ArgumentError) \<and>
   (0 \<le> n \<longrightarrow> head c (Some n) = Inr (take (nat (min n (int (length c)))) c)) \<and>
   (0 \<le> n \<longrightarrow> (\<exists>h. head c (Some n) = Inr h \<and> int (length h) = min n (int (length c)) \<and>
      (\<forall>i < length h. h ! i = c ! i))) \<and>
   (int (length c) < n \<longrightarrow> head c (Some n) = Inr c)"
  by (auto simp: head_def Let_def min_def)

theorem head_first_elements_witness:
  "head [10, 20, 30 :: nat] None = Inr [10] \<and>
   head [10, 20, 30 :: nat] (Some (- 1)) = Inl ArgumentError \<and>
   head [10, 20, 30 :: nat] (Some 2) = Inr [10, 20] \<and>
   head [10, 20, 30 :: nat] (Some 5) = Inr [10, 20, 30]"
  using head_first_elements[of "[10, 20, 30 :: nat]" "- 1"]
    head_first_elements[of "[10, 20, 30 :: nat]" 2]
    head_first_elements[of "[10, 20, 30 :: nat]" 5]
    head_first_elements[of "[10, 20, 30 :: nat]" 1]
  by (simp add: numeral_2_eq_2)

lemma rowsFrom_eq:
  "rowsFrom c indices out =
     out @ map (\<lambda>i. c ! nat i) (filter (\<lambda>i. 0 \<le> i \<and> i < int (length c)) indices)"
  by (induction indices arbitrary: out) auto

text \<open>
  C6. \<open>rows\<close> never fails. Its result holds, for each index that is at least 0 and less
  than the length of the collection, the record at that index, in the order in which the
  indices were given; the other indices contribute nothing. On a collection of two records
  the indices 0, 1, 2 give the two records.
\<close>

theorem rows_in_range:
  "rows c indices =
     Inr (map (\<lambda>i. c ! nat i) (filter (\<lambda>i. 0 \<le> i \<and> i < int (length c)) indices)) \<and>
   rows [a, b] [0, 1, 2] = Inr [a, b]"
  by (simp add: rows_def rowsFrom_eq)

theorem rows_in_range_witness:
  "rows [''a'', ''b''] [0, 1, 2] = Inr [''a'', ''b''] \<and>
   rows [''a'', ''b'', ''c''] [2, 7, 0, - 1] = Inr [''c'', ''a'']"
  using rows_in_range[of "[''a'', ''b'']" "[0, 1, 2]" "''a''" "''b''"]
    rows_in_range[of "[''a'', ''b'', ''c'']" "[2, 7, 0, - 1]" "''a''" "''b''"]
  by (simp add: numeral_2_eq_2)

section \<open>The sort\<close>

lemma mset_insertStable: "mset (insertStable lt x ys) = add_mset x (mset ys)"
  by (induction ys) auto

lemma mset_sortStable: "mset (sortStable lt xs) = mset xs"
  by (induction xs) (auto simp: sortStable_def mset_insertStable)

lemma set_sortStable: "set (sortStable lt xs) = set xs"
  using mset_sortStable[of lt xs] by (metis set_mset_mset)

lemma length_sortStable: "length (sortStable lt xs) = length xs"
  using mset_sortStable[of lt xs] by (metis size_mset)

lemma filter_insertStable:
  assumes "\<forall>y \<in> set ys. Q x \<and> Q y \<and> lt y x \<longrightarrow> x = y"
  shows "filter Q (insertStable lt x ys) = filter Q (x # ys)"
  using assms by (induction ys) auto

lemma filter_sortStable:
  assumes "\<forall>x \<in> set xs. \<forall>y \<in> set xs. Q x \<and> Q y \<and> lt y x \<longrightarrow> x = y"
  shows "filter Q (sortStable lt xs) = filter Q xs"
  using assms
proof (induction xs)
  case Nil
  then show ?case by (simp add: sortStable_def)
next
  case (Cons x xs)
  have s: "sortStable lt (x # xs) = insertStable lt x (sortStable lt xs)"
    by (simp add: sortStable_def)
  have "\<forall>y \<in> set (sortStable lt xs). Q x \<and> Q y \<and> lt y x \<longrightarrow> x = y"
    using Cons.prems by (simp add: set_sortStable)
  then have "filter Q (insertStable lt x (sortStable lt xs)) = filter Q (x # sortStable lt xs)"
    by (rule filter_insertStable)
  moreover have "filter Q (sortStable lt xs) = filter Q xs"
    using Cons.prems by (intro Cons.IH) simp
  ultimately show ?case by (simp add: s)
qed

lemma sorted_insertStable:
  assumes asym: "\<And>a b. lt a b \<Longrightarrow> \<not> lt b a"
    and trans: "\<And>a b c. \<not> lt b a \<Longrightarrow> \<not> lt c b \<Longrightarrow> \<not> lt c a"
    and "sorted_wrt (\<lambda>a b. \<not> lt b a) ys"
  shows "sorted_wrt (\<lambda>a b. \<not> lt b a) (insertStable lt x ys)"
  using assms(3)
proof (induction ys)
  case Nil
  then show ?case by simp
next
  case (Cons y ys)
  show ?case
  proof (cases "lt y x")
    case True
    have "set (insertStable lt x ys) = insert x (set ys)"
      using mset_insertStable[of lt x ys] by (metis set_mset_add_mset_insert set_mset_mset)
    then have "\<forall>z \<in> set (insertStable lt x ys). \<not> lt z y"
      using Cons.prems True asym by auto
    then show ?thesis using True Cons by simp
  next
    case False
    then have "\<forall>z \<in> set ys. \<not> lt z x"
      using Cons.prems trans by auto
    then show ?thesis using False Cons.prems by simp
  qed
qed

lemma sorted_sortStable:
  assumes "\<And>a b. lt a b \<Longrightarrow> \<not> lt b a"
    and "\<And>a b c. \<not> lt b a \<Longrightarrow> \<not> lt c b \<Longrightarrow> \<not> lt c a"
  shows "sorted_wrt (\<lambda>a b. \<not> lt b a) (sortStable lt xs)"
proof (induction xs)
  case Nil
  then show ?case by (simp add: sortStable_def)
next
  case (Cons x xs)
  have "sortStable lt (x # xs) = insertStable lt x (sortStable lt xs)"
    by (simp add: sortStable_def)
  then show ?case using sorted_insertStable[OF assms Cons] by simp
qed

lemma direction_cases:
  "direction None = Inr True" "direction (Some ''asc'') = Inr True"
  "direction (Some ''dsc'') = Inr False"
  "s \<noteq> ''asc'' \<Longrightarrow> s \<noteq> ''dsc'' \<Longrightarrow> direction (Some s) = Inl ArgumentError"
  by (simp_all add: direction_def)

lemma sortBy_result:
  assumes "deref st r = Some c" and "direction d = Inr asc"
  shows "sortBy compare st r f d =
     Inr (nxt st, st\<lparr>colls := (colls st)(nxt st \<mapsto> sortStable (before compare f asc) c),
                      nxt := nxt st + 1\<rparr>)"
  using assms by (simp add: sortBy_def)

lemma deref_after_sort:
  "deref (st\<lparr>colls := (colls st)(nxt st \<mapsto> c1), nxt := Suc (nxt st)\<rparr>) q =
     (if q = nxt st then Some c1 else deref st q)"
  by (simp add: deref_def)

lemma before_compareInt:
  "before compareInt f True a b \<longleftrightarrow>
     (case (resolve a f, resolve b f) of
        (None, Some y) \<Rightarrow> True
      | (Some x, Some y) \<Rightarrow> x < y
      | _ \<Rightarrow> False)"
  by (cases "resolve a f"; cases "resolve b f") (simp_all add: before_def compareInt_def)

text \<open>
  C3. For every collection held by the store, every field name and every comparator,
  sorting in the default, the ascending or the descending direction returns a reference to
  a new collection of the same length that is a permutation of the input. The sort is
  stable: any two records whose keys compare as equal keep their relative order (all their
  occurrences appear in the order of the input). The reference differs from the input's, the
  input collection is unchanged, and so is every other collection of the store.
\<close>

theorem sortBy_stable_permutation:
  assumes "deref st r = Some c" and "d = None \<or> d = Some ''asc'' \<or> d = Some ''dsc''"
  shows "\<exists>r1 st1 c1. sortBy compare st r f d = Inr (r1, st1) \<and>
     deref st1 r1 = Some c1 \<and>
     length c1 = length c \<and>
     mset c1 = mset c \<and>
     (\<forall>a b. compareKey compare (resolve a f) (resolve b f) = Equal \<and>
            compareKey compare (resolve b f) (resolve a f) = Equal \<longrightarrow>
            filter (\<lambda>x. x = a \<or> x = b) c1 = filter (\<lambda>x. x = a \<or> x = b) c) \<and>
     r1 \<noteq> r \<and> deref st1 r = Some c \<and>
     (\<forall>q. q \<noteq> r1 \<longrightarrow> deref st1 q = deref st q)"
proof -
  obtain asc where asc: "direction d = Inr asc"
    using assms(2) direction_cases(1-3) by blast
  let ?lt = "before compare f asc"
  let ?c1 = "sortStable ?lt c"
  let ?st1 = "st\<lparr>colls := (colls st)(nxt st \<mapsto> ?c1), nxt := nxt st + 1\<rparr>"
  have res: "sortBy compare st r f d = Inr (nxt st, ?st1)"
    using assms(1) asc by (rule sortBy_result)
  have r: "r < nxt st"
    using assms(1) by (auto simp: deref_def split: if_splits)
  have stable: "filter (\<lambda>x. x = a \<or> x = b) ?c1 = filter (\<lambda>x. x = a \<or> x = b) c"
    if "compareKey compare (resolve a f) (resolve b f) = Equal"
      and "compareKey compare (resolve b f) (resolve a f) = Equal" for a b
  proof (rule filter_sortStable)
    show "\<forall>x \<in> set c. \<forall>y \<in> set c. (x = a \<or> x = b) \<and> (y = a \<or> y = b) \<and> ?lt y x \<longrightarrow> x = y"
      using that by (auto simp: before_def)
  qed
  have "deref ?st1 (nxt st) = Some ?c1" "deref ?st1 r = Some c"
    "\<forall>q. q \<noteq> nxt st \<longrightarrow> deref ?st1 q = deref st q"
    using r assms(1) by (simp_all add: deref_after_sort)
  then show ?thesis
    using res r stable by (simp add: length_sortStable mset_sortStable)
qed

theorem sortBy_stable_permutation_witness:
  "deref \<lparr>colls = [0 \<mapsto> [[(''Id'', 1), (''Volume'', 50)], [(''Id'', 2), (''Volume'', 10)],
                            [(''Id'', 3), (''Volume'', 50 :: int)]]], nxt = 1\<rparr> 0 =
     Some [[(''Id'', 1), (''Volume'', 50)], [(''Id'', 2), (''Volume'', 10)], [(''Id'', 3), (''Volume'', 50)]] \<and>
   sortBy compareInt
     \<lparr>colls = [0 \<mapsto> [[(''Id'', 1), (''Volume'', 50)], [(''Id'', 2), (''Volume'', 10)],
                       [(''Id'', 3), (''Volume'', 50)]]], nxt = 1\<rparr> 0 ''Volume'' (Some ''dsc'') =
     Inr (1, \<lparr>colls = [0 \<mapsto> [[(''Id'', 1), (''Volume'', 50)], [(''Id'', 2), (''Volume'', 10)],
                                [(''Id'', 3), (''Volume'', 50)]],
                        1 \<mapsto> [[(''Id'', 1), (''Volume'', 50)], [(''Id'', 3), (''Volume'', 50)],
                                [(''Id'', 2), (''Volume'', 10)]]], nxt = 2\<rparr>)"
proof -
  let ?c = "[[(''Id'', 1), (''Volume'', 50)], [(''Id'', 2), (''Volume'', 10)],
             [(''Id'', 3), (''Volume'', 50 :: int)]]"
  let ?st = "\<lparr>colls = [0 \<mapsto> ?c], nxt = 1\<rparr>"
  have c: "deref ?st 0 = Some ?c"
    by (simp add: deref_def)
  have d: "Some ''dsc'' = None \<or> Some ''dsc'' = Some ''asc'' \<or> Some ''dsc'' = Some ''dsc''"
    by simp
  from sortBy_stable_permutation[OF c d, of compareInt "''Volume''"]
  obtain r1 st1 where "sortBy compareInt ?st 0 ''Volume'' (Some ''dsc'') = Inr (r1, st1)"
    by blast
  then show ?thesis
    using c
    by (simp add: sortBy_def direction_def sortStable_def before_def resolve_def compareInt_def)
qed

text \<open>
  C7. Without a direction the sort is the one with direction "asc". A direction string
  other than "asc" and "dsc" makes the call an \<open>ArgumentError\<close>, whatever the other
  arguments are. When the comparator is asymmetric and its "not greater" is transitive on
  the keys, the default result is in ascending order: no record is followed by one whose
  key compares as less.
\<close>

theorem sortBy_direction:
  "sortBy compare st r f None = sortBy compare st r f (Some ''asc'') \<and>
   (s \<noteq> ''asc'' \<and> s \<noteq> ''dsc'' \<longrightarrow> sortBy compare st r f (Some s) = Inl ArgumentError) \<and>
   (deref st r = Some c \<longrightarrow>
      (\<forall>a b. before compare f True a b \<longrightarrow> \<not> before compare f True b a) \<longrightarrow>
      (\<forall>a b c. \<not> before compare f True b a \<longrightarrow> \<not> before compare f True c b \<longrightarrow>
          \<not> before compare f True c a) \<longrightarrow>
      (\<exists>st1 c1. sortBy compare st r f None = Inr (nxt st, st1) \<and>
         deref st1 (nxt st) = Some c1 \<and>
         sorted_wrt (\<lambda>a b. compareKey compare (resolve b f) (resolve a f) \<noteq> Less) c1))"
proof -
  have 1: "sortBy compare st r f None = sortBy compare st r f (Some ''asc'')"
    by (simp add: sortBy_def direction_cases)
  have 2: "sortBy compare st r f (Some s) = Inl ArgumentError" if "s \<noteq> ''asc''" "s \<noteq> ''dsc''"
    using that by (simp add: sortBy_def direction_cases)
  have 3: "\<exists>st1 c1. sortBy compare st r f None = Inr (nxt st, st1) \<and>
         deref st1 (nxt st) = Some c1 \<and>
         sorted_wrt (\<lambda>a b. compareKey compare (resolve b f) (resolve a f) \<noteq> Less) c1"
    if c: "deref st r = Some c"
      and asym: "\<forall>a b. before compare f True a b \<longrightarrow> \<not> before compare f True b a"
      and trans: "\<forall>a b c. \<not> before compare f True b a \<longrightarrow> \<not> before compare f True c b \<longrightarrow>
          \<not> before compare f True c a"
  proof -
    let ?lt = "before compare f True"
    have "sorted_wrt (\<lambda>a b. \<not> ?lt b a) (sortStable ?lt c)"
    proof (rule sorted_sortStable)
      show "\<And>a b. ?lt a b \<Longrightarrow> \<not> ?lt b a" using asym by (rule allE) (erule allE, erule mp)
      show "\<And>a b c. \<not> ?lt b a \<Longrightarrow> \<not> ?lt c b \<Longrightarrow> \<not> ?lt c a"
        using trans by (meson)
    qed
    then have "sorted_wrt (\<lambda>a b. compareKey compare (resolve b f) (resolve a f) \<noteq> Less)
        (sortStable ?lt c)"
      by (simp add: before_def)
    then show ?thesis
      using sortBy_result[OF c direction_cases(1), of compare f]
      by (simp add: deref_after_sort)
  qed
  show ?thesis using 1 2 3 by blast
qed

theorem sortBy_direction_witness:
  "sortBy compareInt
     \<lparr>colls = [0 \<mapsto> [[(''Id'', 1), (''Volume'', 100)], [(''Id'', 2), (''Volume'', 50)]]], nxt = 1\<rparr>
     0 ''Volume'' None =
     Inr (1, \<lparr>colls = [0 \<mapsto> [[(''Id'', 1), (''Volume'', 100)], [(''Id'', 2), (''Volume'', 50)]],
                        1 \<mapsto> [[(''Id'', 2), (''Volume'', 50)], [(''Id'', 1), (''Volume'', 100)]]],
              nxt = 2\<rparr>) \<and>
   sortBy compareInt
     \<lparr>colls = [0 \<mapsto> [[(''Id'', 1), (''Volume'', 100)], [(''Id'', 2), (''Volume'', 50)]]], nxt = 1\<rparr>
     0 ''Volume'' (Some ''up'') = Inl ArgumentError"
proof -
  let ?c = "[[(''Id'', 1), (''Volume'', 100)], [(''Id'', 2), (''Volume'', 50 :: int)]]"
  let ?st = "\<lparr>colls = [0 \<mapsto> ?c], nxt = 1\<rparr>"
  note t = sortBy_direction[of compareInt ?st 0 "''Volume''" "''up''" ?c]
  have c: "deref ?st 0 = Some ?c"
    by (simp add: deref_def)
  have asym: "\<forall>a b. before compareInt ''Volume'' True a b \<longrightarrow> \<not> before compareInt ''Volume'' True b a"
    by (auto simp: before_compareInt split: option.splits)
  have trans: "\<forall>a b c. \<not> before compareInt ''Volume'' True b a \<longrightarrow>
      \<not> before compareInt ''Volume'' True c b \<longrightarrow> \<not> before compareInt ''Volume'' True c a"
    by (auto simp: before_compareInt split: option.splits)
  have up: "''up'' \<noteq> ''asc'' \<and> ''up'' \<noteq> ''dsc''"
    by simp
  have e: "sortBy compareInt ?st 0 ''Volume'' (Some ''up'') = Inl ArgumentError"
    by (rule t[THEN conjunct2, THEN conjunct1, rule_format, OF up])
  from t[THEN conjunct2, THEN conjunct2, THEN mp, OF c, THEN mp, OF asym, THEN mp, OF trans]
  obtain st1 where "sortBy compareInt ?st 0 ''Volume'' None = Inr (nxt ?st, st1)"
    by blast
  then show ?thesis
    using e
    by (simp add: sortBy_def direction_def sortStable_def before_def resolve_def compareInt_def
        deref_def numeral_2_eq_2)
qed

section \<open>The round trip through table and totable\<close>

lemma of_char_digit: "d < 10 \<Longrightarrow> (of_char (digit d) :: nat) = 48 + d"
  by (simp add: digit_def)

lemma parseDigits_append:
  "parseDigits a (s @ t) = (case parseDigits a s of None \<Rightarrow> None | Some b \<Rightarrow> parseDigits b t)"
  by (induction s arbitrary: a) auto

lemma parseDigits_digit: "d < 10 \<Longrightarrow> parseDigits a [digit d] = Some (a * 10 + d)"
  by (simp add: of_char_digit)

lemma showNat_nonempty: "showNat n \<noteq> []"
  by (subst showNat.simps) simp

lemma parseDigits_showNat: "parseDigits 0 (showNat n) = Some n"
proof (induction n rule: showNat.induct)
  case (1 n)
  show ?case
  proof (cases "n < 10")
    case True
    then show ?thesis
      by (subst showNat.simps) (simp add: parseDigits_digit del: parseDigits.simps)
  next
    case False
    have d: "n mod 10 < 10"
      by simp
    from False have "parseDigits 0 (showNat (n div 10)) = Some (n div 10)"
      by (rule 1)
    with False show ?thesis
      by (subst showNat.simps)
        (simp add: parseDigits_append parseDigits_digit [OF d] del: parseDigits.simps)
  qed
qed

lemma parseNat_showNat: "parseNat (showNat n) = Some n"
  by (simp add: parseNat_def showNat_nonempty parseDigits_showNat)

lemma showNat_hd: "\<exists>d r. d < 10 \<and> showNat n = digit d # r"
proof (induction n rule: showNat.induct)
  case (1 n)
  show ?case
  proof (cases "n < 10")
    case True
    then show ?thesis
      by (subst showNat.simps) auto
  next
    case False
    then obtain d r where "d < 10" and "showNat (n div 10) = digit d # r"
      using 1 by blast
    with False have "d < 10 \<and> showNat n = digit d # (r @ [digit (n mod 10)])"
      by (subst showNat.simps) simp
    then show ?thesis
      by blast
  qed
qed

lemma digit_not_sign:
  assumes d: "d < 10"
  shows "digit d \<noteq> CHR ''-'' \<and> digit d \<noteq> CHR ''+''"
proof -
  have "(of_char (digit d) :: nat) \<noteq> of_char CHR ''-''"
    using d by (simp add: of_char_digit)
  moreover have "(of_char (digit d) :: nat) \<noteq> of_char CHR ''+''"
    using d by (simp add: of_char_digit)
  ultimately show ?thesis
    by auto
qed

lemma digit_not_letter:
  assumes d: "d < 10"
  shows "digit d \<noteq> CHR ''t'' \<and> digit d \<noteq> CHR ''f''"
proof -
  have "(of_char (digit d) :: nat) \<noteq> of_char CHR ''t''"
    using d by (simp add: of_char_digit)
  moreover have "(of_char (digit d) :: nat) \<noteq> of_char CHR ''f''"
    using d by (simp add: of_char_digit)
  ultimately show ?thesis
    by auto
qed

lemma parseInt_showInt: "parseInt (showInt i) = Some i"
proof (cases "i < 0")
  case True
  then show ?thesis
    by (simp add: parseInt_def showInt_def parseNat_showNat)
next
  case False
  obtain d r where d: "d < 10" and s: "showNat (nat i) = digit d # r"
    using showNat_hd by blast
  have "parseNat (digit d # r) = Some (nat i)"
    using parseNat_showNat [of "nat i"] by (simp only: s)
  with False d show ?thesis
    by (simp add: parseInt_def showInt_def s digit_not_sign)
qed

lemma parseBool_showInt: "parseBool (showInt i) = None"
proof -
  obtain d r where d: "d < 10" and s: "showNat (nat i) = digit d # r"
    using showNat_hd by blast
  from d have "digit d \<noteq> CHR ''t''" and "digit d \<noteq> CHR ''f''"
    by (simp_all add: digit_not_letter)
  then show ?thesis
    by (simp add: parseBool_def showInt_def s)
qed

lemma parseBool_render: "parseBool (if b then ''true'' else ''false'') = Some b"
  by (simp add: parseBool_def)

lemma parseAs_render:
  assumes "floatReadable fmtFloat parseFloat v"
  shows "\<exists>v1. parseAs parseFloat (kindOf v) (render fmtFloat v) = Some v1 \<and>
           sameValue fmtFloat v v1 \<and> render fmtFloat v1 = render fmtFloat v"
proof (cases v)
  case (VBool b)
  then show ?thesis
    by (simp add: parseBool_def)
next
  case (VInt i)
  then show ?thesis
    by (simp add: parseInt_showInt)
next
  case (VFloat x)
  with assms obtain y where "parseFloat (fmtFloat x) = Some y" and "fmtFloat y = fmtFloat x"
    by (auto simp add: floatReadable_def split: option.splits)
  with VFloat show ?thesis
    by simp
next
  case (VString s)
  then show ?thesis
    by simp
qed

lemma parseRow_render:
  assumes "\<forall>(n, v) \<in> set r. floatReadable fmtFloat parseFloat v"
  shows "\<exists>r1. parseRow parseFloat (map fst r) (map (\<lambda>(n, v). kindOf v) r)
                 (map (\<lambda>(n, v). render fmtFloat v) r) = Inr r1 \<and>
           list_all2 (\<lambda>(n, v) (n1, v1). n1 = n \<and> sameValue fmtFloat v v1) r r1 \<and>
           map (\<lambda>(n, v). render fmtFloat v) r1 = map (\<lambda>(n, v). render fmtFloat v) r"
  using assms
proof (induction r)
  case Nil
  show ?case
    by simp
next
  case (Cons a r)
  obtain n v where a: "a = (n, v)"
    by (cases a)
  from Cons.prems a have "floatReadable fmtFloat parseFloat v"
    by simp
  then obtain v1 where v1: "parseAs parseFloat (kindOf v) (render fmtFloat v) = Some v1"
      "sameValue fmtFloat v v1" "render fmtFloat v1 = render fmtFloat v"
    using parseAs_render by blast
  from Cons.prems have "\<forall>(n, v) \<in> set r. floatReadable fmtFloat parseFloat v"
    by simp
  then obtain r1 where r1:
      "parseRow parseFloat (map fst r) (map (\<lambda>(n, v). kindOf v) r)
         (map (\<lambda>(n, v). render fmtFloat v) r) = Inr r1"
      "list_all2 (\<lambda>(n, v) (n1, v1). n1 = n \<and> sameValue fmtFloat v v1) r r1"
      "map (\<lambda>(n, v). render fmtFloat v) r1 = map (\<lambda>(n, v). render fmtFloat v) r"
    using Cons.IH by blast
  show ?case
    by (rule exI [of _ "(n, v1) # r1"]) (simp add: a v1 r1)
qed

lemma parseRows_render:
  assumes "\<forall>r \<in> set c. map fst r = names \<and> map (\<lambda>(n, v). kindOf v) r = kinds \<and>
             (\<forall>(n, v) \<in> set r. floatReadable fmtFloat parseFloat v)"
  shows "\<exists>c1. parseRows parseFloat names kinds (map (map (\<lambda>(n, v). render fmtFloat v)) c) = Inr c1 \<and>
           sameRecords fmtFloat c c1 \<and>
           map (map (\<lambda>(n, v). render fmtFloat v)) c1 = map (map (\<lambda>(n, v). render fmtFloat v)) c"
  using assms
proof (induction c)
  case Nil
  show ?case
    by (simp add: sameRecords_def)
next
  case (Cons r c)
  from Cons.prems have n: "map fst r = names" and k: "map (\<lambda>(n, v). kindOf v) r = kinds"
    and f: "\<forall>(n, v) \<in> set r. floatReadable fmtFloat parseFloat v"
    by simp_all
  from f obtain r1 where r1:
      "parseRow parseFloat (map fst r) (map (\<lambda>(n, v). kindOf v) r)
         (map (\<lambda>(n, v). render fmtFloat v) r) = Inr r1"
      "list_all2 (\<lambda>(n, v) (n1, v1). n1 = n \<and> sameValue fmtFloat v v1) r r1"
      "map (\<lambda>(n, v). render fmtFloat v) r1 = map (\<lambda>(n, v). render fmtFloat v) r"
    using parseRow_render by blast
  from Cons.prems have "\<forall>r \<in> set c. map fst r = names \<and> map (\<lambda>(n, v). kindOf v) r = kinds \<and>
             (\<forall>(n, v) \<in> set r. floatReadable fmtFloat parseFloat v)"
    by simp
  then obtain c1 where c1:
      "parseRows parseFloat names kinds (map (map (\<lambda>(n, v). render fmtFloat v)) c) = Inr c1"
      "sameRecords fmtFloat c c1"
      "map (map (\<lambda>(n, v). render fmtFloat v)) c1 = map (map (\<lambda>(n, v). render fmtFloat v)) c"
    using Cons.IH by blast
  from r1(1) have r1': "parseRow parseFloat names kinds (map (\<lambda>(n, v). render fmtFloat v) r) = Inr r1"
    by (simp only: n k)
  show ?case
    using c1(2) by (intro exI [of _ "r1 # c1"]) (simp add: r1' r1 c1 sameRecords_def)
qed

lemma inferKind_render:
  assumes "\<forall>(n, v) \<in> set r. inferredAsIs fmtFloat parseFloat v"
  shows "map (inferKind parseFloat) (map (\<lambda>(n, v). render fmtFloat v) r) = map (\<lambda>(n, v). kindOf v) r"
  using assms by (induction r) (auto simp add: inferredAsIs_def)

lemma inferredAsIs_bool_int:
  "inferredAsIs fmtFloat parseFloat (VBool b) \<and> inferredAsIs fmtFloat parseFloat (VInt i)"
  by (simp add: inferredAsIs_def inferKind_def parseBool_render parseBool_showInt parseInt_showInt)

text \<open>
  C2 (as stated) fails on the model of sections 4.7 and 4.8. The collection of the two
  records \<open>{S: "7"}\<close> and \<open>{S: "x"}\<close> is homogeneous, with one field of kind string; row 1 of
  its table reads \<open>7\<close>, so the column is inferred as integer and the second row is a
  \<open>ParseError\<close>. The table of the empty collection has the header row only, which
  \<open>totable\<close> refuses as a grid of fewer than 2 rows.
\<close>

theorem round_trip_counterexample:
  "toTable (\<lambda>ns. ns) (\<lambda>s. None :: unit option)
     (table (\<lambda>x. ''0'') [''S''] [[(''S'', VString ''7'')], [(''S'', VString ''x'')]])
     = Inl ParseError \<and>
   toTable (\<lambda>ns. ns) (\<lambda>s. None :: unit option) (table (\<lambda>x. ''0'') [''S''] [])
     = Inl ArgumentError"
  by (simp add: toTable_def table_def inferKind_def parseBool_def parseInt_def parseNat_def)

text \<open>
  C2 (as amended). Let \<open>c\<close> be a non-empty collection of homogeneous records: every record
  has the fields \<open>names\<close>, in this order, and the kinds of the first record's values. Let the
  names be non-empty, unique and left as they are by the sanitizer. Let every string and
  every floating-point value of the first record be inferred as its own kind (its canonical
  form is read by no parser earlier in the priority order), and let the canonical form of
  every floating-point value of \<open>c\<close> be parsed to a number with the same canonical form. Then
  \<open>totable\<close> of the grid of \<open>table\<close> succeeds, and the collection it yields has the records
  of \<open>c\<close>, in order, with the same field names and the same values up to the canonical
  form of floating-point numbers; its table is the table of \<open>c\<close>.
\<close>

theorem table_toTable_round_trip:
  assumes "c \<noteq> []"
    and "[] \<notin> set names" and "distinct names" and "sanitize names = names"
    and "\<forall>r \<in> set c. map fst r = names \<and>
           map (\<lambda>(n, v). kindOf v) r = map (\<lambda>(n, v). kindOf v) (hd c)"
    and "\<forall>(n, v) \<in> set (hd c). kindOf v = KFloat \<or> kindOf v = KString \<longrightarrow>
           inferredAsIs fmtFloat parseFloat v"
    and "\<forall>r \<in> set c. \<forall>(n, v) \<in> set r. floatReadable fmtFloat parseFloat v"
  shows "\<exists>c1. toTable sanitize parseFloat (table fmtFloat names c) = Inr c1 \<and>
           sameRecords fmtFloat c c1 \<and>
           table fmtFloat names c1 = table fmtFloat names c"
proof -
  obtain r0 rest where c: "c = r0 # rest"
    using assms(1) by (cases c) auto
  have "\<forall>(n, v) \<in> set r0. inferredAsIs fmtFloat parseFloat v"
  proof (clarify)
    fix n v
    assume "(n, v) \<in> set r0"
    with assms(6) c
    have "kindOf v = KFloat \<or> kindOf v = KString \<longrightarrow> inferredAsIs fmtFloat parseFloat v"
      by auto
    then show "inferredAsIs fmtFloat parseFloat v"
      using inferredAsIs_bool_int [of fmtFloat parseFloat] by (cases v) auto
  qed
  then have k: "map (inferKind parseFloat) (map (\<lambda>(n, v). render fmtFloat v) r0) =
      map (\<lambda>(n, v). kindOf v) r0"
    by (rule inferKind_render)
  have "\<forall>r \<in> set c. map fst r = names \<and>
      map (\<lambda>(n, v). kindOf v) r = map (\<lambda>(n, v). kindOf v) (hd c) \<and>
      (\<forall>(n, v) \<in> set r. floatReadable fmtFloat parseFloat v)"
    using assms(5) assms(7) by blast
  then obtain c1 where c1:
      "parseRows parseFloat names (map (\<lambda>(n, v). kindOf v) (hd c))
         (map (map (\<lambda>(n, v). render fmtFloat v)) c) = Inr c1"
      "sameRecords fmtFloat c c1"
      "map (map (\<lambda>(n, v). render fmtFloat v)) c1 = map (map (\<lambda>(n, v). render fmtFloat v)) c"
    using parseRows_render by blast
  have g: "table fmtFloat names c =
      names # map (\<lambda>(n, v). render fmtFloat v) r0 # map (map (\<lambda>(n, v). render fmtFloat v)) rest"
    by (simp only: table_def c list.map)
  have "toTable sanitize parseFloat (table fmtFloat names c) =
      parseRows parseFloat names
        (map (inferKind parseFloat) (map (\<lambda>(n, v). render fmtFloat v) r0))
        (map (\<lambda>(n, v). render fmtFloat v) r0 # map (map (\<lambda>(n, v). render fmtFloat v)) rest)"
    using assms(2) assms(3) by (simp only: g toTable_def list.case assms(4) simp_thms if_False)
  also have "\<dots> = parseRows parseFloat names (map (\<lambda>(n, v). kindOf v) (hd c))
        (map (map (\<lambda>(n, v). render fmtFloat v)) c)"
    by (simp only: k c list.sel list.map)
  finally have "toTable sanitize parseFloat (table fmtFloat names c) = Inr c1"
    by (simp only: c1(1))
  moreover have "table fmtFloat names c1 = table fmtFloat names c"
    by (simp only: table_def c1(3))
  ultimately show ?thesis
    using c1(2) by (intro exI [of _ c1] conjI)
qed

theorem table_toTable_round_trip_witness:
  "toTable (\<lambda>ns. ns) (\<lambda>s. if s = ''0.5'' then Some True else if s = ''1.5'' then Some False else None)
     (table (\<lambda>x. if x then ''0.5'' else ''1.5'') [''Name'', ''Count'', ''Ok'', ''Ratio'']
        [[(''Name'', VString ''a''), (''Count'', VInt 1), (''Ok'', VBool True), (''Ratio'', VFloat True)],
         [(''Name'', VString ''7''), (''Count'', VInt (- 20)), (''Ok'', VBool False), (''Ratio'', VFloat False)]])
     = Inr [[(''Name'', VString ''a''), (''Count'', VInt 1), (''Ok'', VBool True), (''Ratio'', VFloat True)],
            [(''Name'', VString ''7''), (''Count'', VInt (- 20)), (''Ok'', VBool False), (''Ratio'', VFloat False)]]"
proof -
  let ?fmt = "\<lambda>x. if x then ''0.5'' else ''1.5''"
  let ?pf = "\<lambda>s. if s = ''0.5'' then Some True else if s = ''1.5'' then Some False else None"
  let ?names = "[''Name'', ''Count'', ''Ok'', ''Ratio'']"
  let ?c = "[[(''Name'', VString ''a''), (''Count'', VInt 1), (''Ok'', VBool True), (''Ratio'', VFloat True)],
         [(''Name'', VString ''7''), (''Count'', VInt (- 20)), (''Ok'', VBool False), (''Ratio'', VFloat False)]]"
  have 1: "?c \<noteq> []"
    by simp
  have 2: "[] \<notin> set ?names"
    by simp
  have 3: "distinct ?names"
    by simp
  have 4: "(\<lambda>ns. ns) ?names = ?names"
    by simp
  have 5: "\<forall>r \<in> set ?c. map fst r = ?names \<and>
      map (\<lambda>(n, v). kindOf v) r = map (\<lambda>(n, v). kindOf v) (hd ?c)"
    by simp
  have 6: "\<forall>(n, v) \<in> set (hd ?c). kindOf v = KFloat \<or> kindOf v = KString \<longrightarrow>
      inferredAsIs ?fmt ?pf v"
    by (simp add: inferredAsIs_def inferKind_def parseBool_def parseInt_def parseNat_def)
  have 7: "\<forall>r \<in> set ?c. \<forall>(n, v) \<in> set r. floatReadable ?fmt ?pf v"
    by (simp add: floatReadable_def)
  have s: "showInt 1 = ''1''" "showInt (- 20) = ''-20''"
    by (simp_all add: showInt_def showNat.simps digit_def char_of_def bit_iff_odd_drop_bit
        drop_bit_eq_div)
  have e: "toTable (\<lambda>ns. ns) ?pf (table ?fmt ?names ?c) = Inr ?c"
    by (simp add: toTable_def table_def inferKind_def parseBool_def parseInt_def parseNat_def s)
  from table_toTable_round_trip [of ?c ?names "\<lambda>ns. ns" ?fmt ?pf, OF 1 2 3 4 5 6 7]
  obtain c1 where "toTable (\<lambda>ns. ns) ?pf (table ?fmt ?names ?c) = Inr c1"
    by blast
  with e show ?thesis
    by simp
qed

section \<open>CreateTemplate\<close>

text \<open>
  C10. For every template name and every Config, \<open>nil\<close> included, \<open>CreateTemplate\<close> on an
  empty source returns no template and the error "template <name> contains no source",
  without calling the parser; a source that is not empty is handed to the parser with the
  Config's function map, and the parser's result is returned.
\<close>

theorem CreateTemplate_empty_source:
  "CreateTemplate parse nm '''' cfg =
     (None, Some (''template '' @ nm @ '' contains no source'')) \<and>
   (tmplSrc \<noteq> '''' \<longrightarrow>
      CreateTemplate parse nm tmplSrc cfg = parse nm (getFuncMap cfg) tmplSrc)"
  by (simp add: CreateTemplate_def)

theorem CreateTemplate_empty_source_witness:
  "CreateTemplate (\<lambda>n fm s. (Some (n, s), None)) ''t'' '''' (None :: nat Config option) =
     (None, Some ''template t contains no source'') \<and>
   CreateTemplate (\<lambda>n fm s. (Some (n, s), None)) ''t'' ''{{.}}'' (None :: nat Config option) =
     (Some (''t'', ''{{.}}''), None)"
  using CreateTemplate_empty_source
    [of "\<lambda>n fm s. (Some (n, s), None)" "''t''" "None :: nat Config option" "''{{.}}''"]
  by simp

end
